theory Spec2Isabelle
  imports Complex_Main "HOL-Library.Sublist" "HOL-Library.Product_Lexorder" "HOL-Library.Multiset"
begin

section \<open>Strings\<close>

text \<open>
  Python strings are modelled as HOL strings; Python's substring test \<^verbatim>\<open>a in b\<close> is
  \<^const>\<open>sublist\<close> (a contiguous sublist). \<^verbatim>\<open>str.upper()\<close> and \<^verbatim>\<open>str.lower()\<close> follow
  the Unicode case mappings; they are not defined here but are parameters (\<open>str_upper\<close>,
  \<open>str_lower\<close>) of the functions that call them, so that what is proved holds for the
  library's functions whatever they do to a text.

  To run the functions on plain ASCII text, \<open>ascii_upper\<close> and \<open>ascii_lower\<close> give what the
  library's functions do to such a text: they clear resp. set bit 5 of the code of an ASCII
  letter and leave every other ASCII character unchanged.
\<close>

type_synonym str_fun = "string \<Rightarrow> string"

definition is_ascii_lower :: "char \<Rightarrow> bool" where
  "is_ascii_lower c = (97 \<le> (of_char c :: nat) \<and> (of_char c :: nat) \<le> 122)"

definition is_ascii_upper :: "char \<Rightarrow> bool" where
  "is_ascii_upper c = (65 \<le> (of_char c :: nat) \<and> (of_char c :: nat) \<le> 90)"

fun ascii_upper_char :: "char \<Rightarrow> char" where
  "ascii_upper_char (Char b0 b1 b2 b3 b4 b5 b6 b7) =
     (if is_ascii_lower (Char b0 b1 b2 b3 b4 b5 b6 b7)
      then Char b0 b1 b2 b3 b4 False b6 b7
      else Char b0 b1 b2 b3 b4 b5 b6 b7)"

fun ascii_lower_char :: "char \<Rightarrow> char" where
  "ascii_lower_char (Char b0 b1 b2 b3 b4 b5 b6 b7) =
     (if is_ascii_upper (Char b0 b1 b2 b3 b4 b5 b6 b7)
      then Char b0 b1 b2 b3 b4 True b6 b7
      else Char b0 b1 b2 b3 b4 b5 b6 b7)"

definition ascii_upper :: str_fun where
  "ascii_upper s = map ascii_upper_char s"

definition ascii_lower :: str_fun where
  "ascii_lower s = map ascii_lower_char s"

section \<open>Search candidates (providers/base.py)\<close>

text \<open>
  The dataclass \<^verbatim>\<open>SubtitleResult\<close>. The field \<^verbatim>\<open>id\<close> is called \<open>sub_id\<close>;
  \<^verbatim>\<open>download_params\<close> holds the \<^verbatim>\<open>file_id\<close> entry of the dictionary. The float
  \<^verbatim>\<open>score\<close> is a rational: the code only ever stores \<open>0.0\<close> or a quotient of two small
  non-negative integers in it.
\<close>

record SubtitleResult =
  sub_id :: string
  language :: string
  release :: string
  filename :: string
  download_url :: "string option"
  download_params :: "string option"
  is_perfect_match :: bool
  provider :: string
  score :: rat
  download_count :: int

text \<open>The dataclass defaults: \<^verbatim>\<open>is_perfect_match=False\<close>, \<^verbatim>\<open>score=0.0\<close>, ...\<close>

definition SubtitleResult_default :: "string \<Rightarrow> string \<Rightarrow> string \<Rightarrow> string \<Rightarrow> SubtitleResult" where
  "SubtitleResult_default i l r f =
     \<lparr>sub_id = i, language = l, release = r, filename = f, download_url = None,
      download_params = None, is_perfect_match = False, provider = [], score = 0,
      download_count = 0\<rparr>"

section \<open>Release matching (core/release\_matcher.py)\<close>

text \<open>The loop \<^verbatim>\<open>for group in media_release_groups: if group.upper() in combined: matches += 1\<close>.\<close>

fun count_matches :: "str_fun \<Rightarrow> string \<Rightarrow> string list \<Rightarrow> nat \<Rightarrow> nat" where
  "count_matches str_upper combined [] matches = matches"
| "count_matches str_upper combined (g # gs) matches =
     count_matches str_upper combined gs
       (if sublist (str_upper g) combined then matches + 1 else matches)"

definition calculate_match_score ::
  "str_fun \<Rightarrow> string \<Rightarrow> string \<Rightarrow> string list \<Rightarrow> rat \<times> bool" where
  "calculate_match_score str_upper subtitle_release subtitle_filename media_release_groups =
     (if media_release_groups = [] then (0, False)
      else
        let combined = str_upper (subtitle_release @ '' '' @ subtitle_filename);
            matches = count_matches str_upper combined media_release_groups 0;
            sc = (if media_release_groups \<noteq> []
                  then of_nat matches / of_nat (length media_release_groups) else 0);
            is_perfect = (matches = length media_release_groups \<and> matches > 0)
        in (sc, is_perfect))"

text \<open>
  \<^verbatim>\<open>extract_release_info\<close>. The filename guesser is a collaborator: \<open>None\<close> stands for
  an exception raised by it, otherwise it yields the (optional) fields read by the code.
  A \<^verbatim>\<open>source\<close> field may be one string or a list of strings.
\<close>

datatype guess_source = Single string | Multi "string list"

record guess =
  g_release_group :: "string option"
  g_screen_size :: "string option"
  g_source :: "guess_source option"
  g_video_codec :: "string option"

definition truthy_str :: "string option \<Rightarrow> bool" where
  "truthy_str s = (case s of None \<Rightarrow> False | Some t \<Rightarrow> t \<noteq> [])"

fun truthy_source :: "guess_source option \<Rightarrow> bool" where
  "truthy_source None = False"
| "truthy_source (Some (Single s)) = (s \<noteq> [])"
| "truthy_source (Some (Multi l)) = (l \<noteq> [])"

fun unique_info :: "string list \<Rightarrow> string list \<Rightarrow> string list" where
  "unique_info [] acc = acc"
| "unique_info (item # items) acc =
     (if item \<notin> set acc then unique_info items (acc @ [item]) else unique_info items acc)"

definition extract_release_info ::
  "str_fun \<Rightarrow> (string \<Rightarrow> guess option) \<Rightarrow> string \<Rightarrow> string list" where
  "extract_release_info str_upper guessit fname =
     (case guessit fname of
        None \<Rightarrow> []
      | Some result \<Rightarrow>
          let i1 = (if truthy_str (g_release_group result)
                    then [str_upper (the (g_release_group result))] else []);
              i2 = (if truthy_str (g_screen_size result)
                    then i1 @ [str_upper (the (g_screen_size result))] else i1);
              i3 = (if truthy_source (g_source result)
                    then (case the (g_source result) of
                            Multi l \<Rightarrow> i2 @ map str_upper l
                          | Single s \<Rightarrow> i2 @ [str_upper s])
                    else i2);
              i4 = (if truthy_str (g_video_codec result)
                    then i3 @ [str_upper (the (g_video_codec result))] else i3)
          in unique_info i4 [])"

section \<open>Ranking (core/subtitle\_manager.py, the sort in \_try\_download)\<close>

text \<open>
  \<^verbatim>\<open>all_results.sort(key=lambda x: (not x[1].is_perfect_match, -x[1].download_count, -x[1].score))\<close>:
  Python compares the key tuples lexicographically (\<open>False < True\<close>) and its sort is
  stable; \<^const>\<open>sort_key\<close> is the stable sort by key of the list library. The entries are
  the triples (provider, result, token).
\<close>

definition rank_key :: "'p \<times> SubtitleResult \<times> 't \<Rightarrow> bool \<times> int \<times> rat" where
  "rank_key x = (\<not> is_perfect_match (fst (snd x)), - download_count (fst (snd x)),
                 - score (fst (snd x)))"

definition rank :: "('p \<times> SubtitleResult \<times> 't) list \<Rightarrow> ('p \<times> SubtitleResult \<times> 't) list" where
  "rank all_results = sort_key rank_key all_results"

section \<open>Exceptions, the world and its trace\<close>

datatype exn =
    Exception string
  | RuntimeError string
  | ValueError string
  | TypeError string
  | OSError string
  | PlexSubtitleError string
  | PlexAPIError string
  | ProviderError string
  | OpenSubtitlesError string

text \<open>\<^verbatim>\<open>isinstance(e, PlexSubtitleError)\<close>, from the class hierarchy of utils/exceptions.py.\<close>

fun is_PlexSubtitleError :: "exn \<Rightarrow> bool" where
  "is_PlexSubtitleError (PlexSubtitleError _) = True"
| "is_PlexSubtitleError (PlexAPIError _) = True"
| "is_PlexSubtitleError (ProviderError _) = True"
| "is_PlexSubtitleError (OpenSubtitlesError _) = True"
| "is_PlexSubtitleError _ = False"

text \<open>The tuple \<^verbatim>\<open>(Exception,)\<close>: every exception is an instance of \<^verbatim>\<open>Exception\<close>.\<close>

definition is_Exception :: "exn \<Rightarrow> bool" where
  "is_Exception e = True"

text \<open>
  Effects are recorded in a trace, in the order in which they happen: waiting, calls of
  the collaborators (provider, language verifier, file system, Plex). The file system is
  the list of the paths that exist.
\<close>

datatype event =
    Sleep rat
  | OnRetry int rat exn
  | Search string string
  | Download string string string
  | Verify string string
  | Remove string
  | GetMediaInfo string
  | RefreshMetadata string
  | SetSession string string
  | SetDefault string string

record world =
  files :: "string list"
  trace :: "event list"

definition emit :: "event \<Rightarrow> world \<Rightarrow> world" where
  "emit e w = w\<lparr>trace := trace w @ [e]\<rparr>"

fun is_Sleep :: "event \<Rightarrow> bool" where
  "is_Sleep (Sleep _) = True" | "is_Sleep _ = False"

fun is_OnRetry :: "event \<Rightarrow> bool" where
  "is_OnRetry (OnRetry _ _ _) = True" | "is_OnRetry _ = False"

fun is_Search :: "event \<Rightarrow> bool" where
  "is_Search (Search _ _) = True" | "is_Search _ = False"

fun is_Download :: "event \<Rightarrow> bool" where
  "is_Download (Download _ _ _) = True" | "is_Download _ = False"

fun is_Verify :: "event \<Rightarrow> bool" where
  "is_Verify (Verify _ _) = True" | "is_Verify _ = False"

fun is_Remove :: "event \<Rightarrow> bool" where
  "is_Remove (Remove _) = True" | "is_Remove _ = False"

fun is_SetSession :: "event \<Rightarrow> bool" where
  "is_SetSession (SetSession _ _) = True" | "is_SetSession _ = False"

fun is_SetDefault :: "event \<Rightarrow> bool" where
  "is_SetDefault (SetDefault _ _) = True" | "is_SetDefault _ = False"

definition count_ev :: "(event \<Rightarrow> bool) \<Rightarrow> world \<Rightarrow> nat" where
  "count_ev P w = length (filter P (trace w))"

section \<open>Retry with exponential backoff (utils/retry.py)\<close>

text \<open>
  A wrapped operation takes the world and returns either a raised exception (\<open>Inl\<close>) or
  its value (\<open>Inr\<close>), with the world it leaves. The tuple \<^verbatim>\<open>exceptions\<close> is the
  predicate "is an instance of one of these classes"; \<^verbatim>\<open>on_retry\<close> is an optional
  callback acting on the world; \<^verbatim>\<open>time.sleep(delay)\<close> / \<^verbatim>\<open>asyncio.sleep(delay)\<close> is
  recorded as the event \<open>Sleep delay\<close>. Delays are rationals, and not negative when the
  base delay is not (\<^verbatim>\<open>time.sleep\<close> refuses a negative delay, \<^verbatim>\<open>asyncio.sleep\<close> does
  not; every call site passes a positive base delay).
\<close>

type_synonym 'a action = "world \<Rightarrow> (exn + 'a) \<times> world"
type_synonym callback = "int \<Rightarrow> rat \<Rightarrow> exn \<Rightarrow> world \<Rightarrow> world"

definition time_sleep :: "rat \<Rightarrow> world \<Rightarrow> world" where
  "time_sleep delay w = emit (Sleep delay) w"

definition call_on_retry :: "callback option \<Rightarrow> int \<Rightarrow> rat \<Rightarrow> exn \<Rightarrow> world \<Rightarrow> world" where
  "call_on_retry on_retry attempt delay e w =
     (case on_retry of Some cb \<Rightarrow> cb attempt delay e w | None \<Rightarrow> w)"

text \<open>\<^verbatim>\<open>range(max_retries)\<close>: the indices \<open>0, ..., max_retries - 1\<close>, none if \<open>max_retries \<le> 0\<close>.\<close>

definition py_range :: "int \<Rightarrow> int list" where
  "py_range n = [0..n - 1]"

text \<open>
  The body of \<^verbatim>\<open>for attempt in range(max_retries)\<close>, by recursion over the remaining
  indices; the statement after the loop raises \<^verbatim>\<open>RuntimeError\<close>.
\<close>

fun retry_loop ::
  "int \<Rightarrow> rat \<Rightarrow> (exn \<Rightarrow> bool) \<Rightarrow> callback option \<Rightarrow> 'a action \<Rightarrow> int list \<Rightarrow> 'a action" where
  "retry_loop max_retries base_delay exceptions on_retry func [] w =
     (Inl (RuntimeError ''Retry loop exited unexpectedly''), w)"
| "retry_loop max_retries base_delay exceptions on_retry func (attempt # rest) w =
     (case func w of
        (Inr v, w1) \<Rightarrow> (Inr v, w1)
      | (Inl e, w1) \<Rightarrow>
          if exceptions e then
            if attempt < max_retries - 1 then
              let delay = base_delay * 2 ^ nat attempt;
                  w2 = call_on_retry on_retry attempt delay e w1;
                  w3 = time_sleep delay w2
              in retry_loop max_retries base_delay exceptions on_retry func rest w3
            else (Inl e, w1)
          else (Inl e, w1))"

definition sync_wrapper ::
  "int \<Rightarrow> rat \<Rightarrow> (exn \<Rightarrow> bool) \<Rightarrow> callback option \<Rightarrow> 'a action \<Rightarrow> 'a action" where
  "sync_wrapper max_retries base_delay exceptions on_retry func w =
     retry_loop max_retries base_delay exceptions on_retry func (py_range max_retries) w"

text \<open>The coroutine wrapper has the same loop, with awaits.\<close>

definition async_wrapper ::
  "int \<Rightarrow> rat \<Rightarrow> (exn \<Rightarrow> bool) \<Rightarrow> callback option \<Rightarrow> 'a action \<Rightarrow> 'a action" where
  "async_wrapper max_retries base_delay exceptions on_retry func w =
     retry_loop max_retries base_delay exceptions on_retry func (py_range max_retries) w"

text \<open>
  \<^verbatim>\<open>decorator(func)\<close> returns the coroutine wrapper if \<^verbatim>\<open>func\<close> is a coroutine
  function (the flag \<open>is_coroutine\<close>), the synchronous one otherwise.
\<close>

definition decorator ::
  "int \<Rightarrow> rat \<Rightarrow> (exn \<Rightarrow> bool) \<Rightarrow> callback option \<Rightarrow> bool \<Rightarrow> 'a action \<Rightarrow> 'a action" where
  "decorator max_retries base_delay exceptions on_retry is_coroutine func =
     (if is_coroutine then async_wrapper max_retries base_delay exceptions on_retry func
      else sync_wrapper max_retries base_delay exceptions on_retry func)"

text \<open>
  \<^verbatim>\<open>retry_with_backoff(max_retries, base_delay, exceptions, on_retry)\<close> builds the
  decorator. The result is a sum so that an exception raised while the policy is set up
  would be \<open>Inl\<close>; the source has no such branch.
\<close>

definition retry_with_backoff ::
  "int \<Rightarrow> rat \<Rightarrow> (exn \<Rightarrow> bool) \<Rightarrow> callback option \<Rightarrow> exn + (bool \<Rightarrow> 'a action \<Rightarrow> 'a action)" where
  "retry_with_backoff max_retries base_delay exceptions on_retry =
     Inr (decorator max_retries base_delay exceptions on_retry)"

definition DEFAULT_MAX_RETRIES :: int where "DEFAULT_MAX_RETRIES = 3"
definition DEFAULT_BASE_RETRY_DELAY :: rat where "DEFAULT_BASE_RETRY_DELAY = 1"
definition BASE_RETRY_WAIT_SECONDS :: rat where "BASE_RETRY_WAIT_SECONDS = 3"
definition MAX_SESSION_RETRIES :: int where "MAX_SESSION_RETRIES = 3"

section \<open>Settings and collaborators\<close>

text \<open>The settings read by the subtitle manager and the webhook handler.\<close>

record Settings =
  languages_list :: "string list"
  subtitles_auto_select :: bool
  subtitles_use_release_matching :: bool
  subtitles_upgrade_on_perfect_match :: bool
  subtitles_upgrade_on_popular :: bool
  subtitles_popular_download_threshold :: int

text \<open>A provider object, as the manager sees it (\<^verbatim>\<open>BaseProvider\<close>).\<close>

record BaseProvider =
  name :: string
  enabled :: bool

record MediaInfo =
  rating_key :: string
  title :: string
  file_path :: "string option"

text \<open>
  What the collaborators answer. Library functions (\<^verbatim>\<open>str.upper\<close>, called \<open>py_upper\<close>
  here, \<^verbatim>\<open>guessit\<close>, the ISO 639 table behind
  \<^verbatim>\<open>to_plex_language_code\<close>, \<^verbatim>\<open>os.path.dirname\<close>, and
  \<^verbatim>\<open>os.path.splitext(os.path.basename(...))[0]\<close>) are functions. The outcome of a call that
  reaches the network or the disk is given for the \<open>k\<close>-th call of its kind, \<open>k\<close> being
  the number of such calls already in the trace, so that any sequence of outcomes is covered:
  \<^item> \<open>search_out\<close>: \<^verbatim>\<open>provider.search\<close> (provider name, language, release groups) raises or
    returns its results and token; the title, year and IMDB id are only forwarded and do not
    appear;
  \<^item> \<open>download_out\<close>: \<^verbatim>\<open>provider.download\<close> raises or returns a flag;
  \<^item> \<open>verify_out\<close>: \<^verbatim>\<open>verify_language\<close> returns a flag (it catches its own failures);
  \<^item> \<open>remove_out\<close>: \<^verbatim>\<open>os.remove\<close> of an existing file fails with this exception, if any;
  \<^item> the Plex client's calls raise or return.
\<close>

record env =
  py_upper :: str_fun
  guessit :: "string \<Rightarrow> guess option"
  to_plex_language_code :: "string \<Rightarrow> string"
  path_dirname :: "string \<Rightarrow> string"
  path_stem :: "string \<Rightarrow> string"
  search_out :: "string \<Rightarrow> string \<Rightarrow> string list option \<Rightarrow> nat
                 \<Rightarrow> exn + (SubtitleResult list \<times> string option)"
  download_out :: "nat \<Rightarrow> exn + bool"
  verify_out :: "nat \<Rightarrow> bool"
  remove_out :: "nat \<Rightarrow> exn option"
  media_info_out :: "exn + MediaInfo option"
  refresh_out :: "exn + bool"
  set_session_out :: "nat \<Rightarrow> exn + bool"
  set_default_out :: "exn + bool"

definition provider_search ::
  "env \<Rightarrow> BaseProvider \<Rightarrow> string \<Rightarrow> string list option
     \<Rightarrow> (SubtitleResult list \<times> string option) action" where
  "provider_search ev p lang release_groups w =
     (search_out ev (name p) lang release_groups (count_ev is_Search w),
      emit (Search (name p) lang) w)"

text \<open>A download that returns \<^verbatim>\<open>True\<close> has written the file at the output path.\<close>

definition provider_download ::
  "env \<Rightarrow> BaseProvider \<Rightarrow> SubtitleResult \<Rightarrow> string \<Rightarrow> string option \<Rightarrow> bool action" where
  "provider_download ev p subtitle output_path token w =
     (let w1 = emit (Download (name p) (sub_id subtitle) output_path) w in
      case download_out ev (count_ev is_Download w) of
        Inl e \<Rightarrow> (Inl e, w1)
      | Inr ok \<Rightarrow> if ok then (Inr True, w1\<lparr>files := List.insert output_path (files w1)\<rparr>)
                  else (Inr False, w1))"

definition verify_language :: "env \<Rightarrow> string \<Rightarrow> string \<Rightarrow> world \<Rightarrow> bool \<times> world" where
  "verify_language ev subtitle_file expected_language w =
     (verify_out ev (count_ev is_Verify w), emit (Verify subtitle_file expected_language) w)"

text \<open>\<^verbatim>\<open>os.remove\<close>: raises when the file does not exist or cannot be removed.\<close>

definition os_remove :: "env \<Rightarrow> string \<Rightarrow> unit action" where
  "os_remove ev p w =
     (let w1 = emit (Remove p) w in
      if p \<notin> set (files w1) then (Inl (OSError ''No such file or directory''), w1)
      else case remove_out ev (count_ev is_Remove w) of
             Some e \<Rightarrow> (Inl e, w1)
           | None \<Rightarrow> (Inr (), w1\<lparr>files := removeAll p (files w1)\<rparr>))"

text \<open>\<^verbatim>\<open>os.path.join(a, b)\<close> on POSIX paths.\<close>

definition path_join :: "string \<Rightarrow> string \<Rightarrow> string" where
  "path_join a b =
     (if b \<noteq> [] \<and> hd b = CHR ''/'' then b
      else if a = [] \<or> last a = CHR ''/'' then a @ b
      else a @ ''/'' @ b)"

definition SUBTITLE_EXTENSIONS :: "string list" where
  "SUBTITLE_EXTENSIONS = [''.srt'', ''.ass'', ''.ssa'', ''.vtt'']"

section \<open>The subtitle manager (core/subtitle\_manager.py)\<close>

text \<open>
  The result dictionaries: \<^verbatim>\<open>{"success": False}\<close> with an optional \<^verbatim>\<open>"existing"\<close>
  entry, or the dictionary of a successful download.
\<close>

datatype dl_result =
    Failed (r_existing: "string option")
  | Downloaded (r_path: string) (r_language: string) (r_language_code: string)
      (r_provider: string) (r_upgraded: bool)

fun success :: "dl_result \<Rightarrow> bool" where
  "success (Failed _) = False"
| "success (Downloaded _ _ _ _ _) = True"

text \<open>\<^verbatim>\<open>_get_existing_subtitles\<close>: the first extension whose file exists, per language.\<close>

fun find_existing :: "string list \<Rightarrow> string \<Rightarrow> string \<Rightarrow> string \<Rightarrow> string list \<Rightarrow> string option" where
  "find_existing fs media_dir media_name lang [] = None"
| "find_existing fs media_dir media_name lang (ext # exts) =
     (let p = path_join media_dir (media_name @ ''.'' @ lang @ ext) in
      if p \<in> set fs then Some p else find_existing fs media_dir media_name lang exts)"

fun existing_loop ::
  "string list \<Rightarrow> string \<Rightarrow> string \<Rightarrow> string list \<Rightarrow> (string \<rightharpoonup> string) \<Rightarrow> (string \<rightharpoonup> string)" where
  "existing_loop fs media_dir media_name [] existing = existing"
| "existing_loop fs media_dir media_name (lang # langs) existing =
     (case find_existing fs media_dir media_name lang SUBTITLE_EXTENSIONS of
        Some p \<Rightarrow> existing_loop fs media_dir media_name langs (existing(lang \<mapsto> p))
      | None \<Rightarrow> existing_loop fs media_dir media_name langs existing)"

definition get_existing_subtitles ::
  "Settings \<Rightarrow> world \<Rightarrow> string \<Rightarrow> string \<Rightarrow> (string \<rightharpoonup> string)" where
  "get_existing_subtitles st w media_dir media_name =
     existing_loop (files w) media_dir media_name (languages_list st) Map.empty"

definition should_skip_first_language ::
  "Settings \<Rightarrow> (string \<rightharpoonup> string) \<Rightarrow> string \<Rightarrow> dl_result option" where
  "should_skip_first_language st existing first_lang =
     (case existing first_lang of
        Some p \<Rightarrow> if \<not> subtitles_use_release_matching st then Some (Failed (Some p)) else None
      | None \<Rightarrow> None)"

definition should_skip_language_check ::
  "Settings \<Rightarrow> bool \<Rightarrow> string \<Rightarrow> (string \<rightharpoonup> string) \<Rightarrow> string \<Rightarrow> dl_result option" where
  "should_skip_language_check st is_first first_lang existing current_lang =
     (if is_first \<and> first_lang \<in> dom existing then
        if \<not> subtitles_use_release_matching st then Some (Failed (existing first_lang))
        else if \<not> subtitles_upgrade_on_perfect_match st then Some (Failed (existing first_lang))
        else None
      else None)"

text \<open>
  The body of \<^verbatim>\<open>_download_and_verify\<close> and the decorated method
  (\<^verbatim>\<open>@retry_with_backoff(max_retries=3, exceptions=(Exception,), on_retry=None)\<close>, with the
  default base delay).
\<close>

definition download_and_verify_body ::
  "env \<Rightarrow> BaseProvider \<Rightarrow> SubtitleResult \<Rightarrow> string \<Rightarrow> string option \<Rightarrow> string \<Rightarrow> bool action" where
  "download_and_verify_body ev p subtitle output_path token lang w =
     (case provider_download ev p subtitle output_path token w of
        (Inl e, w1) \<Rightarrow> (Inl e, w1)
      | (Inr ok, w1) \<Rightarrow>
          if \<not> ok then (Inr False, w1)
          else (case verify_language ev output_path lang w1 of
                  (verified, w2) \<Rightarrow>
                    if \<not> verified then
                      (case os_remove ev output_path w2 of
                         (Inl e, w3) \<Rightarrow> (Inl e, w3)
                       | (Inr _, w3) \<Rightarrow> (Inl (Exception ''Language verification failed''), w3))
                    else (Inr True, w2)))"

definition download_and_verify ::
  "env \<Rightarrow> BaseProvider \<Rightarrow> SubtitleResult \<Rightarrow> string \<Rightarrow> string option \<Rightarrow> string \<Rightarrow> bool action" where
  "download_and_verify ev p subtitle output_path token lang =
     decorator 3 DEFAULT_BASE_RETRY_DELAY is_Exception None False
       (download_and_verify_body ev p subtitle output_path token lang)"

text \<open>
  \<^verbatim>\<open>_download_with_retry\<close>. Both handlers only log, and so does the handler around the
  removal of the old file. \<^verbatim>\<open>existing_path\<close> is truthy when it is a non-empty string.
\<close>

definition download_with_retry ::
  "env \<Rightarrow> BaseProvider \<Rightarrow> SubtitleResult \<Rightarrow> string \<Rightarrow> string option \<Rightarrow> string \<Rightarrow> string option
     \<Rightarrow> world \<Rightarrow> dl_result \<times> world" where
  "download_with_retry ev p subtitle output_path token lang existing_path w =
     (case download_and_verify ev p subtitle output_path token lang w of
        (Inr ok, w1) \<Rightarrow>
          if ok then
            let w2 = (if truthy_str existing_path \<and> existing_path \<noteq> Some output_path
                         \<and> is_perfect_match subtitle
                      then snd (os_remove ev (the existing_path) w1) else w1)
            in (Downloaded output_path lang (to_plex_language_code ev lang) (name p)
                  (existing_path \<noteq> None \<and> is_perfect_match subtitle), w2)
          else (Failed None, w1)
      | (Inl e, w1) \<Rightarrow> (Failed None, w1))"

text \<open>\<^verbatim>\<open>_try_download\<close>: the search over all providers; a provider that raises is skipped.\<close>

fun search_all ::
  "env \<Rightarrow> BaseProvider list \<Rightarrow> string \<Rightarrow> string list option
     \<Rightarrow> (BaseProvider \<times> SubtitleResult \<times> string option) list \<Rightarrow> world
     \<Rightarrow> (BaseProvider \<times> SubtitleResult \<times> string option) list \<times> world" where
  "search_all ev [] lang release_groups all_results w = (all_results, w)"
| "search_all ev (p # ps) lang release_groups all_results w =
     (case provider_search ev p lang release_groups w of
        (Inr (results, token), w1) \<Rightarrow>
          search_all ev ps lang release_groups
            (all_results @ map (\<lambda>r. (p, r, token)) results) w1
      | (Inl e, w1) \<Rightarrow> search_all ev ps lang release_groups all_results w1)"

text \<open>The loop over the ranked results, with its two \<^verbatim>\<open>continue\<close> branches.\<close>

fun download_loop ::
  "env \<Rightarrow> Settings \<Rightarrow> string \<Rightarrow> string \<Rightarrow> string \<Rightarrow> string option \<Rightarrow> SubtitleResult
     \<Rightarrow> (BaseProvider \<times> SubtitleResult \<times> string option) list \<Rightarrow> world \<Rightarrow> dl_result \<times> world" where
  "download_loop ev st media_dir media_name lang existing_path best_result [] w =
     (Failed None, w)"
| "download_loop ev st media_dir media_name lang existing_path best_result
       ((p, result, token) # rest) w =
     (if truthy_str existing_path \<and> \<not> is_perfect_match result
         \<and> \<not> subtitles_upgrade_on_popular st
      then download_loop ev st media_dir media_name lang existing_path best_result rest w
      else if truthy_str existing_path \<and> \<not> is_perfect_match result \<and> result \<noteq> best_result
      then download_loop ev st media_dir media_name lang existing_path best_result rest w
      else
        let output_path = path_join media_dir (media_name @ ''.'' @ lang @ ''.srt'') in
        case download_with_retry ev p result output_path token lang existing_path w of
          (download_result, w1) \<Rightarrow>
            if success download_result then (download_result, w1)
            else download_loop ev st media_dir media_name lang existing_path best_result rest w1)"

definition try_download ::
  "env \<Rightarrow> Settings \<Rightarrow> BaseProvider list \<Rightarrow> string \<Rightarrow> string \<Rightarrow> string \<Rightarrow> string list option
     \<Rightarrow> string option \<Rightarrow> world \<Rightarrow> dl_result \<times> world" where
  "try_download ev st providers media_dir media_name lang release_groups existing_path w =
     (case search_all ev providers lang release_groups [] w of
        (found, w1) \<Rightarrow>
          if found = [] then (Failed None, w1)
          else
            let all_results = rank found;
                has_perfect_match = (\<exists>r \<in> set all_results. is_perfect_match (fst (snd r)));
                best_result = fst (snd (hd all_results))
            in
            if truthy_str existing_path \<and> \<not> has_perfect_match
               \<and> (if subtitles_upgrade_on_popular st
                   then \<not> (download_count best_result \<ge> subtitles_popular_download_threshold st)
                   else True)
            then (Failed existing_path, w1)
            else if truthy_str existing_path \<and> has_perfect_match
                    \<and> \<not> subtitles_upgrade_on_perfect_match st
            then (Failed existing_path, w1)
            else download_loop ev st media_dir media_name lang existing_path best_result
                   all_results w1)"

text \<open>
  \<^verbatim>\<open>download_subtitles\<close>: the loop \<^verbatim>\<open>for i, lang in enumerate(languages)\<close> runs over
  the pairs of index and language.
\<close>

fun language_loop ::
  "env \<Rightarrow> Settings \<Rightarrow> BaseProvider list \<Rightarrow> string \<Rightarrow> string \<Rightarrow> string
     \<Rightarrow> (string \<rightharpoonup> string) \<Rightarrow> string list option \<Rightarrow> (nat \<times> string) list \<Rightarrow> world
     \<Rightarrow> dl_result \<times> world" where
  "language_loop ev st providers media_dir media_name first_lang existing release_groups [] w =
     (Failed None, w)"
| "language_loop ev st providers media_dir media_name first_lang existing release_groups
       ((i, lang) # rest) w =
     (let is_first = (i = 0) in
      case should_skip_language_check st is_first first_lang existing lang of
        Some skip_check \<Rightarrow> (skip_check, w)
      | None \<Rightarrow>
          (case try_download ev st providers media_dir media_name lang release_groups
                  (existing lang) w of
             (result, w1) \<Rightarrow>
               if success result then (result, w1)
               else language_loop ev st providers media_dir media_name first_lang existing
                      release_groups rest w1))"

definition download_subtitles ::
  "env \<Rightarrow> Settings \<Rightarrow> BaseProvider list \<Rightarrow> string \<Rightarrow> world \<Rightarrow> dl_result \<times> world" where
  "download_subtitles ev st providers media_path w =
     (let media_dir = path_dirname ev media_path;
          media_name = path_stem ev media_path;
          languages = languages_list st
      in
      if languages = [] then (Failed None, w)
      else
        let existing = get_existing_subtitles st w media_dir media_name;
            first_lang = hd languages
        in
        case should_skip_first_language st existing first_lang of
          Some skip_result \<Rightarrow> (skip_result, w)
        | None \<Rightarrow>
            let release_groups =
                  (if subtitles_use_release_matching st
                   then Some (extract_release_info (py_upper ev) (guessit ev) media_name)
                   else None)
            in language_loop ev st providers media_dir media_name first_lang existing
                 release_groups (enumerate 0 languages) w)"

section \<open>The OpenSubtitles provider's search (providers/opensubtitles.py)\<close>

text \<open>
  One entry of the API's answer, with the defaults of the \<^verbatim>\<open>.get\<close> calls already
  applied: \<^verbatim>\<open>attributes.language\<close>, \<^verbatim>\<open>attributes.release\<close>,
  \<^verbatim>\<open>attributes.download_count\<close>, and for each of \<^verbatim>\<open>attributes.files\<close> its
  \<^verbatim>\<open>file_id\<close> (as a string) and \<^verbatim>\<open>file_name\<close>.
\<close>

record api_file =
  file_id :: string
  file_name :: string

record api_subtitle =
  a_language :: string
  a_release :: string
  a_download_count :: int
  a_files :: "api_file list"

text \<open>The loop that builds the results; entries in another language or without files are skipped.\<close>

fun build_results ::
  "str_fun \<Rightarrow> string \<Rightarrow> string \<Rightarrow> string list \<Rightarrow> api_subtitle list \<Rightarrow> SubtitleResult list
     \<Rightarrow> SubtitleResult list" where
  "build_results str_lower self_name lang allowed_langs [] results = results"
| "build_results str_lower self_name lang allowed_langs (sub # subs) results =
     (let sub_lang = str_lower (a_language sub) in
      if sub_lang \<notin> set allowed_langs
      then build_results str_lower self_name lang allowed_langs subs results
      else if a_files sub = []
      then build_results str_lower self_name lang allowed_langs subs results
      else
        let file_info = hd (a_files sub);
            result = (SubtitleResult_default (file_id file_info) lang (a_release sub)
                        (file_name file_info))
                      \<lparr>download_params := Some (file_id file_info),
                       provider := self_name,
                       download_count := a_download_count sub\<rparr>
        in build_results str_lower self_name lang allowed_langs subs (results @ [result]))"

text \<open>
  \<^verbatim>\<open>OpenSubtitlesProvider.search\<close>. \<open>auth\<close> is the exception raised by
  \<^verbatim>\<open>_authenticate\<close>, if any; \<open>api\<close> is the outcome of the request; \<open>self_token\<close> is the
  token held by the provider; \<open>allowed\<close> is the table \<^verbatim>\<open>get_allowed_languages\<close>. The
  argument \<open>release_groups\<close> is received and not read.
\<close>

fun exn_message :: "exn \<Rightarrow> string" where
  "exn_message (Exception m) = m"
| "exn_message (RuntimeError m) = m"
| "exn_message (ValueError m) = m"
| "exn_message (TypeError m) = m"
| "exn_message (OSError m) = m"
| "exn_message (PlexSubtitleError m) = m"
| "exn_message (PlexAPIError m) = m"
| "exn_message (ProviderError m) = m"
| "exn_message (OpenSubtitlesError m) = m"

definition opensubtitles_search ::
  "str_fun \<Rightarrow> BaseProvider \<Rightarrow> (string \<Rightarrow> string list) \<Rightarrow> exn option
     \<Rightarrow> exn + api_subtitle list \<Rightarrow> string option \<Rightarrow> string \<Rightarrow> string list option
     \<Rightarrow> exn + (SubtitleResult list \<times> string option)" where
  "opensubtitles_search str_lower self allowed auth api self_token lang release_groups =
     (if \<not> enabled self then Inr ([], None)
      else case auth of
        Some e \<Rightarrow> Inl e
      | None \<Rightarrow>
         (case api of
            Inl e \<Rightarrow> Inl (OpenSubtitlesError (''Search failed: '' @ exn_message e))
          | Inr subtitles \<Rightarrow>
              if subtitles = [] then Inr ([], self_token)
              else Inr (build_results str_lower (name self) lang (allowed lang) subtitles [],
                        self_token)))"

section \<open>The webhook handler (plex/webhook.py)\<close>

text \<open>The Plex client's calls, as the handler sees them.\<close>

definition get_media_info :: "env \<Rightarrow> string \<Rightarrow> MediaInfo option action" where
  "get_media_info ev rk w = (media_info_out ev, emit (GetMediaInfo rk) w)"

definition refresh_metadata :: "env \<Rightarrow> string \<Rightarrow> bool action" where
  "refresh_metadata ev rk w = (refresh_out ev, emit (RefreshMetadata rk) w)"

definition set_active_session_subtitle :: "env \<Rightarrow> string \<Rightarrow> string \<Rightarrow> bool action" where
  "set_active_session_subtitle ev rk language_code w =
     (set_session_out ev (count_ev is_SetSession w), emit (SetSession rk language_code) w)"

definition set_subtitle_stream :: "env \<Rightarrow> string \<Rightarrow> string \<Rightarrow> bool action" where
  "set_subtitle_stream ev rk language_code w =
     (set_default_out ev, emit (SetDefault rk language_code) w)"

text \<open>
  The body of \<^verbatim>\<open>_try_set_session_subtitle\<close>, the decorated coroutine
  (\<^verbatim>\<open>max_retries=MAX_SESSION_RETRIES, base_delay=BASE_RETRY_WAIT_SECONDS\<close>), and
  \<^verbatim>\<open>_try_set_session_subtitle_with_retry\<close>.
\<close>

definition try_set_session_subtitle_body :: "env \<Rightarrow> string \<Rightarrow> string \<Rightarrow> bool action" where
  "try_set_session_subtitle_body ev rk language_code w =
     (case set_active_session_subtitle ev rk language_code w of
        (Inl e, w1) \<Rightarrow> (Inl e, w1)
      | (Inr ok, w1) \<Rightarrow>
          if \<not> ok
          then (Inl (Exception (''Failed to set subtitle '' @ language_code @ '' for '' @ rk)), w1)
          else (Inr True, w1))"

definition try_set_session_subtitle :: "env \<Rightarrow> string \<Rightarrow> string \<Rightarrow> bool action" where
  "try_set_session_subtitle ev rk language_code =
     decorator MAX_SESSION_RETRIES BASE_RETRY_WAIT_SECONDS is_Exception None True
       (try_set_session_subtitle_body ev rk language_code)"

definition try_set_session_subtitle_with_retry ::
  "env \<Rightarrow> string \<Rightarrow> string \<Rightarrow> world \<Rightarrow> bool \<times> world" where
  "try_set_session_subtitle_with_retry ev rk language_code w =
     (case try_set_session_subtitle ev rk language_code w of
        (Inr ok, w1) \<Rightarrow> (ok, w1)
      | (Inl e, w1) \<Rightarrow> (False, w1))"

text \<open>
  The parsed payload: invalid JSON, or the \<^verbatim>\<open>event\<close> and \<^verbatim>\<open>Metadata.ratingKey\<close>
  entries. The response is the dictionary and the status code.
\<close>

datatype payload = InvalidJSON | Payload "string option" "string option"

datatype response_body =
    ErrorBody string
  | IgnoredBody "string option"
  | SuccessBody string string string bool
  | NotFoundBody string

definition PROCESSABLE_EVENTS :: "string list" where
  "PROCESSABLE_EVENTS = [''media.play'', ''media.resume'']"

text \<open>A handler \<^verbatim>\<open>except PlexSubtitleError\<close>: other exceptions leave \<^verbatim>\<open>handle_event\<close>.\<close>

definition on_plex_error :: "exn \<Rightarrow> world \<Rightarrow> (exn + response_body \<times> int) \<times> world" where
  "on_plex_error e w =
     (if is_PlexSubtitleError e then (Inr (ErrorBody (exn_message e), 500), w) else (Inl e, w))"

definition success_response :: "dl_result \<Rightarrow> response_body \<times> int" where
  "success_response result =
     (SuccessBody (r_path result) (r_language result) (r_provider result) (r_upgraded result),
      200)"

text \<open>The part of \<^verbatim>\<open>handle_event\<close> after a successful download.\<close>

definition after_download ::
  "env \<Rightarrow> Settings \<Rightarrow> string \<Rightarrow> dl_result \<Rightarrow> world \<Rightarrow> (exn + response_body \<times> int) \<times> world" where
  "after_download ev st rk result w =
     (case refresh_metadata ev rk w of
        (Inl e, w1) \<Rightarrow> on_plex_error e w1
      | (Inr _, w1) \<Rightarrow>
          if subtitles_auto_select st then
            (case try_set_session_subtitle_with_retry ev rk (r_language_code result) w1 of
               (session_success, w2) \<Rightarrow>
                 if \<not> session_success then
                   (case set_subtitle_stream ev rk (r_language_code result) w2 of
                      (Inl e, w3) \<Rightarrow> on_plex_error e w3
                    | (Inr default_success, w3) \<Rightarrow> (Inr (success_response result), w3))
                 else (Inr (success_response result), w2))
          else (Inr (success_response result), w1))"

definition handle_event ::
  "env \<Rightarrow> Settings \<Rightarrow> BaseProvider list \<Rightarrow> payload \<Rightarrow> world
     \<Rightarrow> (exn + response_body \<times> int) \<times> world" where
  "handle_event ev st providers parsed w =
     (case parsed of
        InvalidJSON \<Rightarrow> (Inr (ErrorBody ''Invalid JSON'', 400), w)
      | Payload event rk_opt \<Rightarrow>
          if event \<notin> Some ` set PROCESSABLE_EVENTS then (Inr (IgnoredBody event, 200), w)
          else if \<not> truthy_str rk_opt then (Inr (ErrorBody ''No rating key'', 400), w)
          else
            (case get_media_info ev (the rk_opt) w of
               (Inl e, w1) \<Rightarrow> on_plex_error e w1
             | (Inr None, w1) \<Rightarrow> (Inr (ErrorBody ''Could not get media info'', 500), w1)
             | (Inr (Some media_info), w1) \<Rightarrow>
                 if \<not> truthy_str (file_path media_info)
                 then (Inr (ErrorBody ''Could not get file path'', 500), w1)
                 else
                   (case download_subtitles ev st providers (the (file_path media_info)) w1 of
                      (result, w2) \<Rightarrow>
                        if success result then after_download ev st (the rk_opt) result w2
                        else (Inr (NotFoundBody ''No suitable subtitle found'', 404), w2))))"

section \<open>Concrete scenarios\<close>

text \<open>An empty world, a provider, candidates and collaborators used to run the model.\<close>

definition w_init :: world where
  "w_init = \<lparr>files = [], trace = []\<rparr>"

definition os_provider :: BaseProvider where
  "os_provider = \<lparr>name = ''opensubtitles'', enabled = True\<rparr>"

definition cand :: "string \<Rightarrow> bool \<Rightarrow> int \<Rightarrow> SubtitleResult" where
  "cand i p c =
     (SubtitleResult_default i ''en'' ''Movie.2020.720p'' ''Movie.srt'')
       \<lparr>is_perfect_match := p, provider := ''opensubtitles'', download_count := c\<rparr>"


text \<open>An operation that fails until two retry callbacks have been recorded.\<close>

definition fail_twice :: "string action" where
  "fail_twice w =
     (if count_ev is_OnRetry w < 2 then (Inl (ValueError ''Error''), w)
      else (Inr ''success'', w))"

definition raise_type_error :: "string action" where
  "raise_type_error w = (Inl (TypeError ''Not retried''), w)"

definition record_retry :: callback where
  "record_retry attempt delay e w = emit (OnRetry attempt delay e) w"

fun is_ValueError :: "exn \<Rightarrow> bool" where
  "is_ValueError (ValueError _) = True"
| "is_ValueError _ = False"

definition env_base :: env where
  "env_base =
     \<lparr>py_upper = ascii_upper,
      guessit = (\<lambda>f. None),
      to_plex_language_code = (\<lambda>l. if l = ''en'' then ''eng'' else l),
      path_dirname = (\<lambda>p. ''/m''),
      path_stem = (\<lambda>p. ''Movie''),
      search_out = (\<lambda>p l g k. Inr ([], None)),
      download_out = (\<lambda>k. Inr True),
      verify_out = (\<lambda>k. True),
      remove_out = (\<lambda>k. None),
      media_info_out = Inr None,
      refresh_out = Inr True,
      set_session_out = (\<lambda>k. Inr False),
      set_default_out = Inr False\<rparr>"

definition env_download_false :: env where
  "env_download_false = env_base\<lparr>download_out := (\<lambda>k. Inr False)\<rparr>"

definition env_verify_fails_once :: env where
  "env_verify_fails_once = env_base\<lparr>verify_out := (\<lambda>k. k \<noteq> 0)\<rparr>"

text \<open>A media directory that already holds an English subtitle, and settings.\<close>

definition w_existing :: world where
  "w_existing = \<lparr>files = [''/m/Movie.en.ass''], trace = []\<rparr>"

definition st_base :: Settings where
  "st_base =
     \<lparr>languages_list = [''en'', ''nl''],
      subtitles_auto_select = True,
      subtitles_use_release_matching = True,
      subtitles_upgrade_on_perfect_match = True,
      subtitles_upgrade_on_popular = False,
      subtitles_popular_download_threshold = 100\<rparr>"

definition st_keep_existing :: Settings where
  "st_keep_existing = st_base\<lparr>subtitles_upgrade_on_perfect_match := False\<rparr>"

definition st_no_matching :: Settings where
  "st_no_matching = st_base\<lparr>subtitles_use_release_matching := False\<rparr>"

definition st_popular :: Settings where
  "st_popular = st_base\<lparr>subtitles_upgrade_on_popular := True\<rparr>"

text \<open>A provider that finds two imperfect English candidates, of popularity 20 and 150.\<close>

definition env_popular :: env where
  "env_popular =
     env_base\<lparr>search_out :=
       (\<lambda>p l g k. if l = ''en'' then Inr ([cand ''b'' False 20, cand ''a'' False 150], None)
                  else Inr ([], None))\<rparr>"

text \<open>A played item with a file, one candidate found; the session calls all return false.\<close>

definition env_play :: env where
  "env_play =
     env_base\<lparr>search_out := (\<lambda>p l g k. Inr ([cand ''a'' False 5], None)),
              media_info_out :=
                Inr (Some \<lparr>rating_key = ''42'', title = ''Movie'',
                           file_path = Some ''/m/Movie.mkv''\<rparr>)\<rparr>"

text \<open>An answer of the OpenSubtitles API with one entry, and the table of allowed languages.\<close>

definition api_answer :: "api_subtitle list" where
  "api_answer =
     [\<lparr>a_language = ''en'', a_release = ''Movie.2020.1080p.WEB-NTB'', a_download_count = 10,
       a_files = [\<lparr>file_id = ''7'', file_name = ''Movie.2020.1080p.WEB-NTB.srt''\<rparr>]\<rparr>]"

definition allowed_languages :: "string \<Rightarrow> string list" where
  "allowed_languages lang = [lang]"

section \<open>Basic facts\<close>

lemma trace_emit: "trace (emit e w) = trace w @ [e]"
  by (simp add: emit_def)

lemma files_emit: "files (emit e w) = files w"
  by (simp add: emit_def)

lemma count_ev_emit:
  "count_ev P (emit e w) = (if P e then Suc (count_ev P w) else count_ev P w)"
  by (simp add: count_ev_def emit_def)

lemma removeAll_insert: "removeAll x (List.insert x xs) = removeAll x xs"
  by (simp add: List.insert_def)

section \<open>The match score\<close>

lemma count_matches_filter:
  "count_matches str_upper c gs m = m + length (filter (\<lambda>g. sublist (str_upper g) c) gs)"
  by (induction gs arbitrary: m) simp_all

lemma filter_upper_fixed:
  "\<forall>g\<in>set gs. str_upper g = g \<Longrightarrow>
     filter (\<lambda>g. sublist (str_upper g) c) gs = filter (\<lambda>g. sublist g c) gs"
  by (rule filter_cong) simp_all

text \<open>
  Without any assumption on the tokens: the code counts the tokens whose upper-case form
  occurs in the combined text.
\<close>

lemma calculate_match_score_general:
  "calculate_match_score str_upper label fname fp =
     (if fp = [] then (0, False)
      else (of_nat (length (filter (\<lambda>g. sublist (str_upper g)
                                        (str_upper (label @ '' '' @ fname))) fp))
              / of_nat (length fp),
            length (filter (\<lambda>g. sublist (str_upper g)
                                 (str_upper (label @ '' '' @ fname))) fp)
              = length fp))"
proof (cases "fp = []")
  case True
  then show ?thesis by (simp add: calculate_match_score_def)
next
  case False
  then have "0 < length fp" by simp
  with False show ?thesis
    by (auto simp add: calculate_match_score_def count_matches_filter Let_def)
qed

text \<open>
  C6. A release fingerprint is a sequence of upper-case tokens (each token is its own
  upper-case form under \<^verbatim>\<open>str.upper\<close>). Whatever \<^verbatim>\<open>str.upper\<close> does to a text: for a
  fingerprint of size \<open>n > 0\<close> of which \<open>k\<close> tokens occur as substrings of the upper-case
  form of label, a space and filename, the score is \<open>k / n\<close> and the perfect-match flag
  holds iff \<open>k = n\<close>; for the empty fingerprint the score is \<open>0\<close> and the flag is false,
  whatever the candidate's text.
\<close>

theorem calculate_match_score_spec:
  assumes "\<forall>g\<in>set fp. str_upper g = g"
  shows "calculate_match_score str_upper label fname fp =
     (if fp = [] then (0, False)
      else (of_nat (length (filter (\<lambda>g. sublist g (str_upper (label @ '' '' @ fname))) fp))
              / of_nat (length fp),
            length (filter (\<lambda>g. sublist g (str_upper (label @ '' '' @ fname))) fp)
              = length fp))"
  using filter_upper_fixed[OF assms] by (simp add: calculate_match_score_general)

text \<open>On an ASCII text: two of the three tokens occur, the score is \<open>2/3\<close>.\<close>

theorem calculate_match_score_spec_witness:
  "ascii_upper ''NTB'' = ''NTB'' \<and> ascii_upper ''1080P'' = ''1080P'' \<and>
   ascii_upper ''BLURAY'' = ''BLURAY'' \<and>
   calculate_match_score ascii_upper ''Movie.1080p.WEB-ntb'' ''movie.srt''
       [''NTB'', ''1080P'', ''BLURAY'']
     = (2 / 3, False)"
proof -
  have h: "\<forall>g\<in>set [''NTB'', ''1080P'', ''BLURAY'']. ascii_upper g = g"
    by (simp add: ascii_upper_def is_ascii_lower_def)
  have r: "calculate_match_score ascii_upper ''Movie.1080p.WEB-ntb'' ''movie.srt''
              [''NTB'', ''1080P'', ''BLURAY''] =
            (of_nat (length (filter (\<lambda>g. sublist g
                 (ascii_upper (''Movie.1080p.WEB-ntb'' @ '' '' @ ''movie.srt'')))
                 [''NTB'', ''1080P'', ''BLURAY'']))
              / of_nat (length [''NTB'', ''1080P'', ''BLURAY'']),
             length (filter (\<lambda>g. sublist g
                 (ascii_upper (''Movie.1080p.WEB-ntb'' @ '' '' @ ''movie.srt'')))
                 [''NTB'', ''1080P'', ''BLURAY''])
              = length [''NTB'', ''1080P'', ''BLURAY''])"
    using calculate_match_score_spec[OF h, of "''Movie.1080p.WEB-ntb''" "''movie.srt''"]
    by simp
  have u: "ascii_upper (''Movie.1080p.WEB-ntb'' @ '' '' @ ''movie.srt'') =
           ''MOVIE.1080P.WEB-NTB MOVIE.SRT''"
    by (simp add: ascii_upper_def is_ascii_lower_def)
  have t: "ascii_upper ''NTB'' = ''NTB'' \<and> ascii_upper ''1080P'' = ''1080P'' \<and>
           ascii_upper ''BLURAY'' = ''BLURAY''"
    using h by simp
  show ?thesis
    unfolding r u using t by (simp add: sublist_Cons_right)
qed

section \<open>Ranking\<close>











section \<open>The retry policy\<close>

lemma upto_step: "a \<le> m - 1 \<Longrightarrow> [a..m - 1] = a # [a + 1..m - 1]"
  by (simp add: upto_rec1)

lemma py_range_3: "py_range 3 = [0, 1, 2]"
  by (simp add: py_range_def upto_rec1)

lemma retry_returns:
  assumes "0 \<le> a" "a < m" "func w = (Inr v, w1)"
  shows "retry_loop m b exc cb func [a..m - 1] w = (Inr v, w1)"
  using assms by (simp add: upto_step)

lemma retry_not_retryable:
  assumes "0 \<le> a" "a < m" "func w = (Inl e, w1)" "\<not> exc e"
  shows "retry_loop m b exc cb func [a..m - 1] w = (Inl e, w1)"
  using assms by (simp add: upto_step)

lemma retry_last_attempt:
  assumes "0 \<le> a" "a = m - 1" "func w = (Inl e, w1)" "exc e"
  shows "retry_loop m b exc cb func [a..m - 1] w = (Inl e, w1)"
  using assms by (simp add: upto_step)

lemma retry_backoff_step:
  assumes "0 \<le> a" "a < m - 1" "func w = (Inl e, w1)" "exc e"
  shows "retry_loop m b exc cb func [a..m - 1] w =
         retry_loop m b exc cb func [a + 1..m - 1]
           (time_sleep (b * 2 ^ nat a) (call_on_retry cb a (b * 2 ^ nat a) e w1))"
  using assms by (simp add: upto_step Let_def)

lemma decorator_run:
  "decorator m b exc cb is_co func = retry_loop m b exc cb func [0..m - 1]"
  by (rule ext) (simp add: decorator_def sync_wrapper_def async_wrapper_def py_range_def)

lemma decorator_two_failures:
  assumes "func w0 = (Inl e1, u1)" "exc e1"
    "func (time_sleep 1 (on_retry 0 1 e1 u1)) = (Inl e2, u2)" "exc e2"
    "func (time_sleep 2 (on_retry 1 2 e2 u2)) = (Inr r, u3)"
  shows "decorator 3 1 exc (Some on_retry) is_co func w0 = (Inr r, u3)"
  using assms
  by (simp add: decorator_def sync_wrapper_def async_wrapper_def py_range_3 call_on_retry_def
      Let_def)

lemma decorator_returns:
  assumes "func w = (Inr v, w1)"
  shows "decorator 3 b exc cb is_co func w = (Inr v, w1)"
  using assms by (simp add: decorator_def sync_wrapper_def async_wrapper_def py_range_3)

lemma decorator_raises:
  assumes "func w = (Inl e, w1)"
  shows "decorator 3 b is_Exception None is_co func w =
         retry_loop 3 b is_Exception None func [1, 2] (time_sleep b w1)"
  using assms
  by (simp add: decorator_def sync_wrapper_def async_wrapper_def py_range_3 call_on_retry_def
      is_Exception_def)

text \<open>
  C7. For a base delay that is not negative: \<^verbatim>\<open>retry_with_backoff\<close> builds the decorator,
  and the decorated function, synchronous or coroutine, runs the attempts with the indices
  \<open>0, ..., max_retries - 1\<close>. At the attempt with index \<open>a\<close>: a result is returned; an
  error that is not retryable propagates at once; a retryable error on the last attempt
  (\<open>a = max_retries - 1\<close>) propagates; a retryable error with attempts remaining calls the
  callback (if given) with \<open>a\<close>, the delay \<open>base_delay * 2 ^ a\<close> and the error, waits that
  delay, and goes on with attempt \<open>a + 1\<close>. With \<open>max_retries = 3\<close> and \<open>base_delay = 1\<close>,
  a decorated operation that fails twice and then succeeds gets the callbacks \<open>(0, 1)\<close> and
  \<open>(1, 2)\<close>, each followed by its wait, and its result is returned.
\<close>

theorem retry_policy_attempts:
  assumes "0 \<le> b"
  shows
  "retry_with_backoff m b exc cb = Inr (decorator m b exc cb) \<and>
   decorator m b exc cb is_co func = retry_loop m b exc cb func [0..m - 1] \<and>
   (0 \<le> a \<and> a < m \<and> func w = (Inr v, w1) \<longrightarrow>
      retry_loop m b exc cb func [a..m - 1] w = (Inr v, w1)) \<and>
   (0 \<le> a \<and> a < m \<and> func w = (Inl e, w1) \<and> \<not> exc e \<longrightarrow>
      retry_loop m b exc cb func [a..m - 1] w = (Inl e, w1)) \<and>
   (0 \<le> a \<and> a = m - 1 \<and> func w = (Inl e, w1) \<and> exc e \<longrightarrow>
      retry_loop m b exc cb func [a..m - 1] w = (Inl e, w1)) \<and>
   (0 \<le> a \<and> a < m - 1 \<and> func w = (Inl e, w1) \<and> exc e \<longrightarrow>
      retry_loop m b exc cb func [a..m - 1] w =
        retry_loop m b exc cb func [a + 1..m - 1]
          (time_sleep (b * 2 ^ nat a) (call_on_retry cb a (b * 2 ^ nat a) e w1))) \<and>
   (func w0 = (Inl e1, u1) \<and> exc e1 \<and>
    func (time_sleep 1 (on_retry 0 1 e1 u1)) = (Inl e2, u2) \<and> exc e2 \<and>
    func (time_sleep 2 (on_retry 1 2 e2 u2)) = (Inr r, u3) \<longrightarrow>
      decorator 3 1 exc (Some on_retry) is_co func w0 = (Inr r, u3))"
proof (intro conjI impI)
  show "retry_with_backoff m b exc cb = Inr (decorator m b exc cb)"
    by (simp add: retry_with_backoff_def)
  show "decorator m b exc cb is_co func = retry_loop m b exc cb func [0..m - 1]"
    by (rule decorator_run)
next
  assume "0 \<le> a \<and> a < m \<and> func w = (Inr v, w1)"
  then show "retry_loop m b exc cb func [a..m - 1] w = (Inr v, w1)"
    by (simp add: retry_returns)
next
  assume "0 \<le> a \<and> a < m \<and> func w = (Inl e, w1) \<and> \<not> exc e"
  then show "retry_loop m b exc cb func [a..m - 1] w = (Inl e, w1)"
    by (simp add: retry_not_retryable)
next
  assume "0 \<le> a \<and> a = m - 1 \<and> func w = (Inl e, w1) \<and> exc e"
  then show "retry_loop m b exc cb func [a..m - 1] w = (Inl e, w1)"
    by (simp add: retry_last_attempt)
next
  assume "0 \<le> a \<and> a < m - 1 \<and> func w = (Inl e, w1) \<and> exc e"
  then show "retry_loop m b exc cb func [a..m - 1] w =
        retry_loop m b exc cb func [a + 1..m - 1]
          (time_sleep (b * 2 ^ nat a) (call_on_retry cb a (b * 2 ^ nat a) e w1))"
    by (simp add: retry_backoff_step)
next
  assume "func w0 = (Inl e1, u1) \<and> exc e1 \<and>
    func (time_sleep 1 (on_retry 0 1 e1 u1)) = (Inl e2, u2) \<and> exc e2 \<and>
    func (time_sleep 2 (on_retry 1 2 e2 u2)) = (Inr r, u3)"
  then show "decorator 3 1 exc (Some on_retry) is_co func w0 = (Inr r, u3)"
    by (simp add: decorator_two_failures)
qed

text \<open>
  The operation \<open>fail_twice\<close>, decorated with a recording callback, as a function and as a
  coroutine: two callbacks, with delays 1 and 2, then the result. A decorated operation
  raising an error outside the retryable classes is run once.
\<close>

theorem retry_policy_attempts_witness:
  "(0::rat) \<le> 1 \<and>
   decorator 3 1 is_Exception (Some record_retry) False fail_twice w_init =
     (Inr ''success'',
      \<lparr>files = [],
       trace = [OnRetry 0 1 (ValueError ''Error''), Sleep 1,
                OnRetry 1 2 (ValueError ''Error''), Sleep 2]\<rparr>) \<and>
   decorator 3 1 is_Exception (Some record_retry) True fail_twice w_init =
     (Inr ''success'',
      \<lparr>files = [],
       trace = [OnRetry 0 1 (ValueError ''Error''), Sleep 1,
                OnRetry 1 2 (ValueError ''Error''), Sleep 2]\<rparr>) \<and>
   decorator 3 1 is_ValueError None False raise_type_error w_init =
     (Inl (TypeError ''Not retried''), w_init)"
proof -
  have b0: "(0::rat) \<le> 1" by simp
  have ev: "is_Exception (ValueError ''Error'')" by (simp add: is_Exception_def)
  have f0: "fail_twice w_init = (Inl (ValueError ''Error''), w_init)"
    by (simp add: fail_twice_def w_init_def count_ev_def)
  have f1: "fail_twice (time_sleep 1 (record_retry 0 1 (ValueError ''Error'') w_init)) =
      (Inl (ValueError ''Error''),
       time_sleep 1 (record_retry 0 1 (ValueError ''Error'') w_init))"
    by (simp add: fail_twice_def w_init_def count_ev_def time_sleep_def record_retry_def
        emit_def)
  have f2: "fail_twice (time_sleep 2 (record_retry 1 2 (ValueError ''Error'')
              (time_sleep 1 (record_retry 0 1 (ValueError ''Error'') w_init)))) =
      (Inr ''success'',
       time_sleep 2 (record_retry 1 2 (ValueError ''Error'')
              (time_sleep 1 (record_retry 0 1 (ValueError ''Error'') w_init))))"
    by (simp add: fail_twice_def w_init_def count_ev_def time_sleep_def record_retry_def
        emit_def)
  note scenario = retry_policy_attempts[OF b0, THEN conjunct2, THEN conjunct2, THEN conjunct2,
      THEN conjunct2, THEN conjunct2, THEN conjunct2, rule_format]
  have a: "decorator 3 1 is_Exception (Some record_retry) is_co fail_twice w_init =
      (Inr ''success'',
       time_sleep 2 (record_retry 1 2 (ValueError ''Error'')
              (time_sleep 1 (record_retry 0 1 (ValueError ''Error'') w_init))))" for is_co
    by (rule scenario) (intro conjI, rule f0, rule ev, rule f1, rule ev, rule f2)
  note run = retry_policy_attempts[OF b0, THEN conjunct2, THEN conjunct1]
  note immediate = retry_policy_attempts[OF b0, THEN conjunct2, THEN conjunct2,
      THEN conjunct2, THEN conjunct1, rule_format]
  have b: "retry_loop 3 1 is_ValueError None raise_type_error [0..3 - 1] w_init =
     (Inl (TypeError ''Not retried''), w_init)"
    by (rule immediate) (simp add: raise_type_error_def)
  have c: "decorator 3 1 is_ValueError None False raise_type_error w_init =
     (Inl (TypeError ''Not retried''), w_init)"
    by (simp only: run b)
  from a[of False] a[of True] c show ?thesis
    by (simp add: time_sleep_def record_retry_def emit_def w_init_def)
qed

text \<open>
  C8, as the claim states it, fails: with \<open>max_retries = 0\<close> the policy is built without
  an error, and a call of the decorated function raises at execution time, the wrapped
  operation not having run (the world is unchanged).
\<close>

theorem zero_retries_accepted_at_setup:
  "retry_with_backoff 0 1 is_Exception None = Inr (decorator 0 1 is_Exception None) \<and>
   \<not> isl (retry_with_backoff 0 1 is_Exception None
            :: exn + (bool \<Rightarrow> string action \<Rightarrow> string action)) \<and>
   decorator 0 1 is_Exception None False fail_twice w_init =
     (Inl (RuntimeError ''Retry loop exited unexpectedly''), w_init)"
  by (simp add: retry_with_backoff_def decorator_def sync_wrapper_def py_range_def)

text \<open>
  C8, amended. Building the policy with \<open>max_retries = 0\<close> succeeds; the decorated
  function, synchronous or coroutine, then never runs the wrapped operation and raises
  \<^verbatim>\<open>RuntimeError("Retry loop exited unexpectedly")\<close> on every call.
\<close>

theorem zero_retries_runtime_error:
  "retry_with_backoff 0 b exc cb = Inr (decorator 0 b exc cb) \<and>
   decorator 0 b exc cb is_co func w =
     (Inl (RuntimeError ''Retry loop exited unexpectedly''), w)"
  by (simp add: retry_with_backoff_def decorator_def sync_wrapper_def async_wrapper_def
      py_range_def)

section \<open>Download and verification as one retried unit\<close>

lemma body_download_false:
  assumes "download_out ev (count_ev is_Download w) = Inr False"
  shows "download_and_verify_body ev p sub out tok lang w =
         (Inr False, emit (Download (name p) (sub_id sub) out) w)"
  using assms by (simp add: download_and_verify_body_def provider_download_def Let_def)

lemma body_verify_failed:
  assumes "download_out ev (count_ev is_Download w) = Inr True"
    "verify_out ev (count_ev is_Verify w) = False"
    "remove_out ev (count_ev is_Remove w) = None"
  shows "download_and_verify_body ev p sub out tok lang w =
         (Inl (Exception ''Language verification failed''),
          (emit (Remove out) (emit (Verify out lang) (emit (Download (name p) (sub_id sub) out) w)))
            \<lparr>files := removeAll out (files w)\<rparr>)"
  using assms
  by (simp add: download_and_verify_body_def provider_download_def verify_language_def
      os_remove_def Let_def emit_def count_ev_def removeAll_insert)

lemma download_and_verify_returns:
  assumes "download_and_verify_body ev p sub out tok lang w = (Inr v, w1)"
  shows "download_and_verify ev p sub out tok lang w = (Inr v, w1)"
  using assms by (simp add: download_and_verify_def decorator_returns)

lemma download_and_verify_raises:
  assumes "download_and_verify_body ev p sub out tok lang w = (Inl e, w1)"
  shows "download_and_verify ev p sub out tok lang w =
         retry_loop 3 1 is_Exception None (download_and_verify_body ev p sub out tok lang) [1, 2]
           (time_sleep 1 w1)"
  using assms
  by (simp add: download_and_verify_def decorator_raises DEFAULT_BASE_RETRY_DELAY_def)

text \<open>
  C10. In the retried unit: when the provider's download returns false, the unit returns
  false after that single call, with no wait and no further attempt; more generally any
  value returned by the body is returned at once. An exception raised by the body (first
  attempt) makes the unit wait and run the second attempt; the language-verification
  failure is such an exception, raised after the downloaded file has been deleted.
\<close>

theorem download_false_is_not_retried:
  "(download_out ev (count_ev is_Download w) = Inr False \<longrightarrow>
      download_and_verify ev p sub out tok lang w =
        (Inr False, emit (Download (name p) (sub_id sub) out) w)) \<and>
   (download_and_verify_body ev p sub out tok lang w = (Inr v, w1) \<longrightarrow>
      download_and_verify ev p sub out tok lang w = (Inr v, w1)) \<and>
   (download_and_verify_body ev p sub out tok lang w = (Inl e, w2) \<longrightarrow>
      download_and_verify ev p sub out tok lang w =
        retry_loop 3 1 is_Exception None (download_and_verify_body ev p sub out tok lang) [1, 2]
          (time_sleep 1 w2)) \<and>
   (download_out ev (count_ev is_Download w) = Inr True \<and>
    verify_out ev (count_ev is_Verify w) = False \<and>
    remove_out ev (count_ev is_Remove w) = None \<longrightarrow>
      (\<exists>w3. download_and_verify_body ev p sub out tok lang w =
               (Inl (Exception ''Language verification failed''), w3) \<and>
            out \<notin> set (files w3) \<and>
            trace w3 = trace w @ [Download (name p) (sub_id sub) out, Verify out lang, Remove out] \<and>
            download_and_verify ev p sub out tok lang w =
              retry_loop 3 1 is_Exception None (download_and_verify_body ev p sub out tok lang)
                [1, 2] (time_sleep 1 w3)))"
proof (intro conjI impI)
  assume "download_out ev (count_ev is_Download w) = Inr False"
  then show "download_and_verify ev p sub out tok lang w =
        (Inr False, emit (Download (name p) (sub_id sub) out) w)"
    by (simp add: download_and_verify_returns body_download_false)
next
  assume "download_and_verify_body ev p sub out tok lang w = (Inr v, w1)"
  then show "download_and_verify ev p sub out tok lang w = (Inr v, w1)"
    by (rule download_and_verify_returns)
next
  assume "download_and_verify_body ev p sub out tok lang w = (Inl e, w2)"
  then show "download_and_verify ev p sub out tok lang w =
        retry_loop 3 1 is_Exception None (download_and_verify_body ev p sub out tok lang) [1, 2]
          (time_sleep 1 w2)"
    by (rule download_and_verify_raises)
next
  assume a: "download_out ev (count_ev is_Download w) = Inr True \<and>
    verify_out ev (count_ev is_Verify w) = False \<and>
    remove_out ev (count_ev is_Remove w) = None"
  let ?w3 = "(emit (Remove out) (emit (Verify out lang) (emit (Download (name p) (sub_id sub) out) w)))
            \<lparr>files := removeAll out (files w)\<rparr>"
  have b: "download_and_verify_body ev p sub out tok lang w =
               (Inl (Exception ''Language verification failed''), ?w3)"
    using a by (simp add: body_verify_failed)
  moreover have "out \<notin> set (files ?w3)" by simp
  moreover have "trace ?w3 = trace w @ [Download (name p) (sub_id sub) out, Verify out lang, Remove out]"
    by (simp add: trace_emit)
  moreover have "download_and_verify ev p sub out tok lang w =
              retry_loop 3 1 is_Exception None (download_and_verify_body ev p sub out tok lang)
                [1, 2] (time_sleep 1 ?w3)"
    using b by (rule download_and_verify_raises)
  ultimately show "\<exists>w3. download_and_verify_body ev p sub out tok lang w =
               (Inl (Exception ''Language verification failed''), w3) \<and>
            out \<notin> set (files w3) \<and>
            trace w3 = trace w @ [Download (name p) (sub_id sub) out, Verify out lang, Remove out] \<and>
            download_and_verify ev p sub out tok lang w =
              retry_loop 3 1 is_Exception None (download_and_verify_body ev p sub out tok lang)
                [1, 2] (time_sleep 1 w3)"
    by blast
qed

text \<open>
  A download that returns false: one call, nothing else. A verification that fails once:
  the file is removed, the unit waits one second, downloads again and succeeds.
\<close>

theorem download_false_is_not_retried_witness:
  "download_and_verify env_download_false os_provider (cand ''a'' False 5)
       ''/m/Movie.en.srt'' None ''en'' w_init =
     (Inr False,
      \<lparr>files = [], trace = [Download ''opensubtitles'' ''a'' ''/m/Movie.en.srt'']\<rparr>) \<and>
   download_and_verify env_verify_fails_once os_provider (cand ''a'' False 5)
       ''/m/Movie.en.srt'' None ''en'' w_init =
     (Inr True,
      \<lparr>files = [''/m/Movie.en.srt''],
       trace = [Download ''opensubtitles'' ''a'' ''/m/Movie.en.srt'',
                Verify ''/m/Movie.en.srt'' ''en'', Remove ''/m/Movie.en.srt'', Sleep 1,
                Download ''opensubtitles'' ''a'' ''/m/Movie.en.srt'',
                Verify ''/m/Movie.en.srt'' ''en'']\<rparr>)"
proof -
  note no_retry = download_false_is_not_retried[THEN conjunct1, rule_format]
  note retried = download_false_is_not_retried[THEN conjunct2, THEN conjunct2,
      THEN conjunct1, rule_format]
  have h1: "download_out env_download_false (count_ev is_Download w_init) = Inr False"
    by (simp add: env_download_false_def env_base_def)
  have a: "download_and_verify env_download_false os_provider (cand ''a'' False 5)
       ''/m/Movie.en.srt'' None ''en'' w_init =
     (Inr False, emit (Download (name os_provider) (sub_id (cand ''a'' False 5))
        ''/m/Movie.en.srt'') w_init)"
    using h1 by (rule no_retry)
  have h2: "download_and_verify_body env_verify_fails_once os_provider (cand ''a'' False 5)
       ''/m/Movie.en.srt'' None ''en'' w_init =
     (Inl (Exception ''Language verification failed''),
      \<lparr>files = [],
       trace = [Download ''opensubtitles'' ''a'' ''/m/Movie.en.srt'',
                Verify ''/m/Movie.en.srt'' ''en'', Remove ''/m/Movie.en.srt'']\<rparr>)"
    by (simp add: download_and_verify_body_def provider_download_def verify_language_def
        os_remove_def Let_def emit_def count_ev_def env_verify_fails_once_def env_base_def
        w_init_def os_provider_def cand_def SubtitleResult_default_def)
  have b: "download_and_verify env_verify_fails_once os_provider (cand ''a'' False 5)
       ''/m/Movie.en.srt'' None ''en'' w_init =
     retry_loop 3 1 is_Exception None
       (download_and_verify_body env_verify_fails_once os_provider (cand ''a'' False 5)
          ''/m/Movie.en.srt'' None ''en'') [1, 2]
       (time_sleep 1 \<lparr>files = [],
       trace = [Download ''opensubtitles'' ''a'' ''/m/Movie.en.srt'',
                Verify ''/m/Movie.en.srt'' ''en'', Remove ''/m/Movie.en.srt'']\<rparr>)"
    using h2 by (rule retried)
  have c: "download_and_verify_body env_verify_fails_once os_provider (cand ''a'' False 5)
          ''/m/Movie.en.srt'' None ''en''
       (time_sleep 1 \<lparr>files = [],
       trace = [Download ''opensubtitles'' ''a'' ''/m/Movie.en.srt'',
                Verify ''/m/Movie.en.srt'' ''en'', Remove ''/m/Movie.en.srt'']\<rparr>) =
     (Inr True,
      \<lparr>files = [''/m/Movie.en.srt''],
       trace = [Download ''opensubtitles'' ''a'' ''/m/Movie.en.srt'',
                Verify ''/m/Movie.en.srt'' ''en'', Remove ''/m/Movie.en.srt'', Sleep 1,
                Download ''opensubtitles'' ''a'' ''/m/Movie.en.srt'',
                Verify ''/m/Movie.en.srt'' ''en'']\<rparr>)"
    by (simp add: download_and_verify_body_def provider_download_def verify_language_def
        os_remove_def Let_def emit_def count_ev_def env_verify_fails_once_def env_base_def
        time_sleep_def os_provider_def cand_def SubtitleResult_default_def)
  from a b c show ?thesis
    by (simp add: emit_def w_init_def os_provider_def cand_def SubtitleResult_default_def)
qed

section \<open>Replacing an existing subtitle\<close>

text \<open>
  C3. When download and verification succeed, \<^verbatim>\<open>_download_with_retry\<close> reports success
  with the output path, the language and the provider. The prior file for the language is
  removed (one \<^verbatim>\<open>os.remove\<close> call, whose failure changes nothing in the result) iff
  there was a prior file, its path is not the output path, and the candidate is a perfect
  match; the flag \<open>upgraded\<close> is true iff there was a prior file and the candidate is a
  perfect match. When download and verification return false or raise, nothing is removed
  and the result is a failure. (A prior file has a non-empty path.)
\<close>

theorem download_with_retry_upgrade:
  assumes "existing_path \<noteq> Some []"
  shows
   "(download_and_verify ev p sub out tok lang w = (Inr True, w1) \<longrightarrow>
       fst (download_with_retry ev p sub out tok lang existing_path w) =
         Downloaded out lang (to_plex_language_code ev lang) (name p)
           (existing_path \<noteq> None \<and> is_perfect_match sub) \<and>
       trace (snd (download_with_retry ev p sub out tok lang existing_path w)) =
         trace w1 @
           (if existing_path \<noteq> None \<and> existing_path \<noteq> Some out \<and> is_perfect_match sub
            then [Remove (the existing_path)] else []) \<and>
       files (snd (download_with_retry ev p sub out tok lang existing_path w)) =
         (if existing_path \<noteq> None \<and> existing_path \<noteq> Some out \<and> is_perfect_match sub
             \<and> remove_out ev (count_ev is_Remove w1) = None
          then removeAll (the existing_path) (files w1) else files w1)) \<and>
    (download_and_verify ev p sub out tok lang w = (Inr False, w1) \<longrightarrow>
       download_with_retry ev p sub out tok lang existing_path w = (Failed None, w1)) \<and>
    (download_and_verify ev p sub out tok lang w = (Inl e, w1) \<longrightarrow>
       download_with_retry ev p sub out tok lang existing_path w = (Failed None, w1))"
proof (intro conjI impI)
  assume a: "download_and_verify ev p sub out tok lang w = (Inr True, w1)"
  show "fst (download_with_retry ev p sub out tok lang existing_path w) =
         Downloaded out lang (to_plex_language_code ev lang) (name p)
           (existing_path \<noteq> None \<and> is_perfect_match sub)"
    using a by (simp add: download_with_retry_def Let_def)
  show "trace (snd (download_with_retry ev p sub out tok lang existing_path w)) =
         trace w1 @
           (if existing_path \<noteq> None \<and> existing_path \<noteq> Some out \<and> is_perfect_match sub
            then [Remove (the existing_path)] else [])"
    using a assms
    by (cases existing_path)
       (simp_all add: download_with_retry_def Let_def truthy_str_def os_remove_def emit_def
          split: option.splits)
  show "files (snd (download_with_retry ev p sub out tok lang existing_path w)) =
         (if existing_path \<noteq> None \<and> existing_path \<noteq> Some out \<and> is_perfect_match sub
             \<and> remove_out ev (count_ev is_Remove w1) = None
          then removeAll (the existing_path) (files w1) else files w1)"
    using a assms
    by (cases existing_path)
       (simp_all add: download_with_retry_def Let_def truthy_str_def os_remove_def emit_def
          split: option.splits)
next
  assume "download_and_verify ev p sub out tok lang w = (Inr False, w1)"
  then show "download_with_retry ev p sub out tok lang existing_path w = (Failed None, w1)"
    by (simp add: download_with_retry_def)
next
  assume "download_and_verify ev p sub out tok lang w = (Inl e, w1)"
  then show "download_with_retry ev p sub out tok lang existing_path w = (Failed None, w1)"
    by (simp add: download_with_retry_def)
qed

text \<open>
  A perfect match downloaded to \<^verbatim>\<open>/m/Movie.en.srt\<close> while \<^verbatim>\<open>/m/Movie.en.ass\<close> exists:
  the old file is removed and \<open>upgraded\<close> is true.
\<close>

theorem download_with_retry_upgrade_witness:
  "fst (download_with_retry env_base os_provider (cand ''c'' True 5) ''/m/Movie.en.srt'' None
          ''en'' (Some ''/m/Movie.en.ass'') w_existing) =
     Downloaded ''/m/Movie.en.srt'' ''en'' ''eng'' ''opensubtitles'' True \<and>
   trace (snd (download_with_retry env_base os_provider (cand ''c'' True 5) ''/m/Movie.en.srt''
          None ''en'' (Some ''/m/Movie.en.ass'') w_existing)) =
     [Download ''opensubtitles'' ''c'' ''/m/Movie.en.srt'', Verify ''/m/Movie.en.srt'' ''en'',
      Remove ''/m/Movie.en.ass''] \<and>
   files (snd (download_with_retry env_base os_provider (cand ''c'' True 5) ''/m/Movie.en.srt''
          None ''en'' (Some ''/m/Movie.en.ass'') w_existing)) = [''/m/Movie.en.srt'']"
proof -
  have body: "download_and_verify_body env_base os_provider (cand ''c'' True 5)
       ''/m/Movie.en.srt'' None ''en'' w_existing =
     (Inr True,
      \<lparr>files = [''/m/Movie.en.srt'', ''/m/Movie.en.ass''],
       trace = [Download ''opensubtitles'' ''c'' ''/m/Movie.en.srt'',
                Verify ''/m/Movie.en.srt'' ''en'']\<rparr>)"
    by (simp add: download_and_verify_body_def provider_download_def verify_language_def
        Let_def emit_def count_ev_def env_base_def w_existing_def os_provider_def cand_def
        SubtitleResult_default_def)
  have dav: "download_and_verify env_base os_provider (cand ''c'' True 5)
       ''/m/Movie.en.srt'' None ''en'' w_existing =
     (Inr True,
      \<lparr>files = [''/m/Movie.en.srt'', ''/m/Movie.en.ass''],
       trace = [Download ''opensubtitles'' ''c'' ''/m/Movie.en.srt'',
                Verify ''/m/Movie.en.srt'' ''en'']\<rparr>)"
    using body by (rule download_and_verify_returns)
  have ne: "Some ''/m/Movie.en.ass'' \<noteq> Some []" by simp
  note ok = download_with_retry_upgrade[OF ne, THEN conjunct1, rule_format, OF dav]
  from ok show ?thesis
    by (simp add: env_base_def os_provider_def cand_def SubtitleResult_default_def
        count_ev_def)
qed

section \<open>Keeping the existing subtitle of the primary language\<close>

lemma existing_loop_at:
  "existing_loop fs d n langs ex l =
     (if l \<in> set langs
      then (case find_existing fs d n l SUBTITLE_EXTENSIONS of Some p \<Rightarrow> Some p | None \<Rightarrow> ex l)
      else ex l)"
  by (induction langs arbitrary: ex) (auto split: option.splits)

lemma find_existing_in_files:
  "find_existing fs d n l exts = Some p \<Longrightarrow> p \<in> set fs"
  by (induction exts) (auto simp add: Let_def split: if_splits)

text \<open>
  C4. When the first configured language has an existing subtitle file (the file found
  for it by \<^verbatim>\<open>_get_existing_subtitles\<close>) and release matching is disabled or the upgrade
  on a perfect match is disabled, \<^verbatim>\<open>download_subtitles\<close> returns
  \<^verbatim>\<open>{"success": False, "existing": path}\<close> and leaves the world as it found it: no search,
  no download, for no language.
\<close>

theorem primary_language_kept:
  assumes "languages_list st = l # ls"
    and "find_existing (files w) (path_dirname ev media_path) (path_stem ev media_path) l
           SUBTITLE_EXTENSIONS = Some p"
    and "\<not> subtitles_use_release_matching st \<or> \<not> subtitles_upgrade_on_perfect_match st"
  shows "download_subtitles ev st providers media_path w = (Failed (Some p), w)"
proof -
  have ex: "get_existing_subtitles st w (path_dirname ev media_path) (path_stem ev media_path) l
            = Some p"
    using assms(1,2) by (simp add: get_existing_subtitles_def existing_loop_at)
  show ?thesis
  proof (cases "subtitles_use_release_matching st")
    case False
    with ex assms(1) show ?thesis
      by (simp add: download_subtitles_def Let_def should_skip_first_language_def)
  next
    case True
    with assms(3) have "\<not> subtitles_upgrade_on_perfect_match st" by simp
    with True ex assms(1) show ?thesis
      by (simp add: download_subtitles_def Let_def should_skip_first_language_def
          should_skip_language_check_def dom_def)
  qed
qed

text \<open>
  With \<^verbatim>\<open>/m/Movie.en.ass\<close> present and languages \<open>en, nl\<close>: once with the upgrade on a
  perfect match disabled, once with release matching disabled.
\<close>

theorem primary_language_kept_witness:
  "download_subtitles env_base st_keep_existing [os_provider] ''/m/Movie.mkv'' w_existing =
     (Failed (Some ''/m/Movie.en.ass''), w_existing) \<and>
   download_subtitles env_base st_no_matching [os_provider] ''/m/Movie.mkv'' w_existing =
     (Failed (Some ''/m/Movie.en.ass''), w_existing)"
proof -
  have f: "find_existing (files w_existing) (path_dirname env_base ''/m/Movie.mkv'')
             (path_stem env_base ''/m/Movie.mkv'') ''en'' SUBTITLE_EXTENSIONS =
           Some ''/m/Movie.en.ass''"
    by (simp add: SUBTITLE_EXTENSIONS_def path_join_def w_existing_def env_base_def Let_def)
  have l1: "languages_list st_keep_existing = ''en'' # [''nl'']"
    by (simp add: st_keep_existing_def st_base_def)
  have l2: "languages_list st_no_matching = ''en'' # [''nl'']"
    by (simp add: st_no_matching_def st_base_def)
  have c1: "\<not> subtitles_use_release_matching st_keep_existing
            \<or> \<not> subtitles_upgrade_on_perfect_match st_keep_existing"
    by (simp add: st_keep_existing_def st_base_def)
  have c2: "\<not> subtitles_use_release_matching st_no_matching
            \<or> \<not> subtitles_upgrade_on_perfect_match st_no_matching"
    by (simp add: st_no_matching_def st_base_def)
  show ?thesis
    using primary_language_kept[OF l1 f c1, of "[os_provider]"]
      primary_language_kept[OF l2 f c2, of "[os_provider]"]
    by simp
qed

section \<open>Running the acquisition on the concrete scenarios\<close>

lemma cand_fields:
  "sub_id (cand i p c) = i" "is_perfect_match (cand i p c) = p" "download_count (cand i p c) = c"
  "score (cand i p c) = 0"
  by (simp_all add: cand_def SubtitleResult_default_def)

lemma os_provider_name: "name os_provider = ''opensubtitles''"
  by (simp add: os_provider_def)

lemma download_and_verify_ok:
  assumes "download_out ev (count_ev is_Download w) = Inr True"
    and "verify_out ev (count_ev is_Verify w)"
  shows "download_and_verify ev p sub out tok lang w =
         (Inr True,
          \<lparr>files = List.insert out (files w),
           trace = trace w @ [Download (name p) (sub_id sub) out, Verify out lang]\<rparr>)"
proof -
  have "download_and_verify_body ev p sub out tok lang w =
         (Inr True,
          \<lparr>files = List.insert out (files w),
           trace = trace w @ [Download (name p) (sub_id sub) out, Verify out lang]\<rparr>)"
    using assms
    by (simp add: download_and_verify_body_def provider_download_def verify_language_def
        Let_def emit_def count_ev_def)
  then show ?thesis by (rule download_and_verify_returns)
qed

section \<open>Activating the subtitle after an acquisition\<close>

lemma session_body_fails:
  assumes "set_session_out ev (count_ev is_SetSession w) \<noteq> Inr True"
  shows "\<exists>e. try_set_session_subtitle_body ev rk lc w = (Inl e, emit (SetSession rk lc) w)"
proof (cases "set_session_out ev (count_ev is_SetSession w)")
  case (Inl e)
  then show ?thesis
    by (simp add: try_set_session_subtitle_body_def set_active_session_subtitle_def)
next
  case (Inr ok)
  with assms have "\<not> ok" by simp
  with Inr show ?thesis
    by (simp add: try_set_session_subtitle_body_def set_active_session_subtitle_def)
qed

lemma session_exhausted:
  assumes "\<forall>k<3. set_session_out ev (count_ev is_SetSession w + k) \<noteq> Inr True"
  shows "\<exists>e. try_set_session_subtitle ev rk lc w =
           (Inl e, emit (SetSession rk lc) (time_sleep 6 (emit (SetSession rk lc)
                     (time_sleep 3 (emit (SetSession rk lc) w)))))"
proof -
  let ?w1 = "emit (SetSession rk lc) w"
  let ?w2 = "time_sleep 3 ?w1"
  let ?w3 = "emit (SetSession rk lc) ?w2"
  let ?w4 = "time_sleep 6 ?w3"
  have c2: "count_ev is_SetSession ?w2 = count_ev is_SetSession w + 1"
    by (simp add: count_ev_emit time_sleep_def)
  have c4: "count_ev is_SetSession ?w4 = count_ev is_SetSession w + 2"
    by (simp add: count_ev_emit time_sleep_def)
  have a0: "set_session_out ev (count_ev is_SetSession w) \<noteq> Inr True"
    using assms[rule_format, of 0] by simp
  have a1: "set_session_out ev (count_ev is_SetSession ?w2) \<noteq> Inr True"
    using assms[rule_format, of 1] by (simp only: c2) simp
  have a2: "set_session_out ev (count_ev is_SetSession ?w4) \<noteq> Inr True"
    using assms[rule_format, of 2] by (simp only: c4) simp
  obtain e1 where b1: "try_set_session_subtitle_body ev rk lc w = (Inl e1, ?w1)"
    using session_body_fails[OF a0] by blast
  obtain e2 where b2: "try_set_session_subtitle_body ev rk lc ?w2 = (Inl e2, ?w3)"
    using session_body_fails[OF a1] by blast
  obtain e3 where b3: "try_set_session_subtitle_body ev rk lc ?w4 =
      (Inl e3, emit (SetSession rk lc) ?w4)"
    using session_body_fails[OF a2] by blast
  have "try_set_session_subtitle ev rk lc w = (Inl e3, emit (SetSession rk lc) ?w4)"
    by (simp add: try_set_session_subtitle_def decorator_def async_wrapper_def
        MAX_SESSION_RETRIES_def BASE_RETRY_WAIT_SECONDS_def py_range_3 b1 b2 b3
        is_Exception_def call_on_retry_def Let_def)
  then show ?thesis by blast
qed

lemma after_download_fallback:
  assumes "subtitles_auto_select st"
    and "refresh_out ev = Inr refreshed"
    and "\<forall>k<3. set_session_out ev (count_ev is_SetSession w + k) \<noteq> Inr True"
    and "set_default_out ev = Inr default_success"
  shows "after_download ev st rk result w =
           (Inr (success_response result),
            \<lparr>files = files w,
             trace = trace w @
               [RefreshMetadata rk,
                SetSession rk (r_language_code result), Sleep 3,
                SetSession rk (r_language_code result), Sleep 6,
                SetSession rk (r_language_code result),
                SetDefault rk (r_language_code result)]\<rparr>)"
proof -
  let ?w1 = "emit (RefreshMetadata rk) w"
  have "count_ev is_SetSession ?w1 = count_ev is_SetSession w"
    by (simp add: count_ev_emit)
  with assms(3)
  have "\<forall>k<3. set_session_out ev (count_ev is_SetSession ?w1 + k) \<noteq> Inr True"
    by simp
  from session_exhausted[OF this, of rk "r_language_code result"]
  obtain e where s: "try_set_session_subtitle ev rk (r_language_code result) ?w1 =
      (Inl e, emit (SetSession rk (r_language_code result))
                (time_sleep 6 (emit (SetSession rk (r_language_code result))
                  (time_sleep 3 (emit (SetSession rk (r_language_code result)) ?w1)))))"
    by blast
  show ?thesis
    using assms(1,2,4)
    by (simp add: after_download_def refresh_metadata_def
        try_set_session_subtitle_with_retry_def s set_subtitle_stream_def)
       (simp add: emit_def time_sleep_def)
qed

text \<open>
  C9. A play or resume event for an item whose file is known, an acquisition that
  succeeds, auto-select enabled, a metadata refresh that returns: if each of the three
  attempts to set the subtitle on the active session raises or returns false, then after
  the waits of 3 and 6 seconds \<^verbatim>\<open>set_subtitle_stream\<close> is called once and only once,
  and whether it returns true or false the response is the success response of the
  acquisition, with status 200.
\<close>

theorem session_fallback_default_once:
  assumes "evt \<in> set PROCESSABLE_EVENTS" and "rk \<noteq> []"
    and "media_info_out ev = Inr (Some mi)" and "file_path mi = Some fp" and "fp \<noteq> []"
    and "download_subtitles ev st providers fp (emit (GetMediaInfo rk) w) = (result, w2)"
    and "success result" and "subtitles_auto_select st"
    and "refresh_out ev = Inr refreshed"
    and "\<forall>k<3. set_session_out ev (count_ev is_SetSession w2 + k) \<noteq> Inr True"
    and "set_default_out ev = Inr default_success"
  shows "handle_event ev st providers (Payload (Some evt) (Some rk)) w =
           (Inr (SuccessBody (r_path result) (r_language result) (r_provider result)
                   (r_upgraded result), 200),
            \<lparr>files = files w2,
             trace = trace w2 @
               [RefreshMetadata rk,
                SetSession rk (r_language_code result), Sleep 3,
                SetSession rk (r_language_code result), Sleep 6,
                SetSession rk (r_language_code result),
                SetDefault rk (r_language_code result)]\<rparr>)"
proof -
  have "handle_event ev st providers (Payload (Some evt) (Some rk)) w =
        after_download ev st rk result w2"
    using assms(1-7)
    by (simp add: handle_event_def get_media_info_def truthy_str_def image_iff)
  also have "\<dots> = (Inr (success_response result),
            \<lparr>files = files w2,
             trace = trace w2 @
               [RefreshMetadata rk,
                SetSession rk (r_language_code result), Sleep 3,
                SetSession rk (r_language_code result), Sleep 6,
                SetSession rk (r_language_code result),
                SetDefault rk (r_language_code result)]\<rparr>)"
    using assms(8-11) by (rule after_download_fallback)
  finally show ?thesis by (simp add: success_response_def)
qed

lemma download_subtitles_play:
  "download_subtitles env_play st_base [os_provider] ''/m/Movie.mkv''
       (emit (GetMediaInfo ''42'') w_init) =
     (Downloaded ''/m/Movie.en.srt'' ''en'' ''eng'' ''opensubtitles'' False,
      \<lparr>files = [''/m/Movie.en.srt''],
       trace = [GetMediaInfo ''42'', Search ''opensubtitles'' ''en'',
                Download ''opensubtitles'' ''a'' ''/m/Movie.en.srt'',
                Verify ''/m/Movie.en.srt'' ''en'']\<rparr>)"
proof -
  let ?ws = "\<lparr>files = [], trace = [GetMediaInfo ''42'', Search ''opensubtitles'' ''en'']\<rparr>"
  have dav: "download_and_verify env_play os_provider (cand ''a'' False 5) ''/m/Movie.en.srt''
               None ''en'' ?ws =
             (Inr True,
              \<lparr>files = [''/m/Movie.en.srt''],
               trace = [GetMediaInfo ''42'', Search ''opensubtitles'' ''en'',
                        Download ''opensubtitles'' ''a'' ''/m/Movie.en.srt'',
                        Verify ''/m/Movie.en.srt'' ''en'']\<rparr>)"
    by (simp add: download_and_verify_ok env_play_def env_base_def count_ev_def
        os_provider_name cand_fields)
  have dwr: "download_with_retry env_play os_provider (cand ''a'' False 5) ''/m/Movie.en.srt''
               None ''en'' None ?ws =
             (Downloaded ''/m/Movie.en.srt'' ''en'' ''eng'' ''opensubtitles'' False,
              \<lparr>files = [''/m/Movie.en.srt''],
               trace = [GetMediaInfo ''42'', Search ''opensubtitles'' ''en'',
                        Download ''opensubtitles'' ''a'' ''/m/Movie.en.srt'',
                        Verify ''/m/Movie.en.srt'' ''en'']\<rparr>)"
    by (simp add: download_with_retry_def dav truthy_str_def os_provider_name)
       (simp add: env_play_def env_base_def)
  have sa: "search_all env_play [os_provider] ''en'' (Some []) []
              (emit (GetMediaInfo ''42'') w_init) =
            ([(os_provider, cand ''a'' False 5, None)], ?ws)"
    by (simp add: provider_search_def emit_def w_init_def count_ev_def os_provider_name
        env_play_def env_base_def)
  have rk: "rank [(os_provider, cand ''a'' False 5, None :: string option)] =
            [(os_provider, cand ''a'' False 5, None)]"
    by (simp add: rank_def)
  have dl: "download_loop env_play st_base ''/m'' ''Movie'' ''en'' None (cand ''a'' False 5)
              [(os_provider, cand ''a'' False 5, None)] ?ws =
            (Downloaded ''/m/Movie.en.srt'' ''en'' ''eng'' ''opensubtitles'' False,
              \<lparr>files = [''/m/Movie.en.srt''],
               trace = [GetMediaInfo ''42'', Search ''opensubtitles'' ''en'',
                        Download ''opensubtitles'' ''a'' ''/m/Movie.en.srt'',
                        Verify ''/m/Movie.en.srt'' ''en'']\<rparr>)"
    by (simp add: truthy_str_def path_join_def dwr)
  have td: "try_download env_play st_base [os_provider] ''/m'' ''Movie'' ''en'' (Some [])
              None (emit (GetMediaInfo ''42'') w_init) =
            (Downloaded ''/m/Movie.en.srt'' ''en'' ''eng'' ''opensubtitles'' False,
              \<lparr>files = [''/m/Movie.en.srt''],
               trace = [GetMediaInfo ''42'', Search ''opensubtitles'' ''en'',
                        Download ''opensubtitles'' ''a'' ''/m/Movie.en.srt'',
                        Verify ''/m/Movie.en.srt'' ''en'']\<rparr>)"
    by (simp add: try_download_def sa rk Let_def truthy_str_def dl
        del: search_all.simps download_loop.simps)
  have ex: "get_existing_subtitles st_base (emit (GetMediaInfo ''42'') w_init) ''/m'' ''Movie''
            = Map.empty"
    by (simp add: get_existing_subtitles_def SUBTITLE_EXTENSIONS_def st_base_def emit_def
        w_init_def)
  have ri: "extract_release_info (py_upper env_play) (guessit env_play) ''Movie'' = []"
    by (simp add: extract_release_info_def env_play_def env_base_def)
  have pd: "path_dirname env_play ''/m/Movie.mkv'' = ''/m''"
    "path_stem env_play ''/m/Movie.mkv'' = ''Movie''"
    by (simp_all add: env_play_def env_base_def)
  have st: "languages_list st_base = [''en'', ''nl'']" "subtitles_use_release_matching st_base"
    by (simp_all add: st_base_def)
  show ?thesis
    by (simp add: download_subtitles_def Let_def pd st ex ri should_skip_first_language_def
        should_skip_language_check_def td)
qed

text \<open>
  A play event for item 42: the subtitle is downloaded, the three session calls return
  false, the default-stream call returns false, and the response is the success response.
\<close>

theorem session_fallback_default_once_witness:
  "handle_event env_play st_base [os_provider] (Payload (Some ''media.play'') (Some ''42''))
       w_init =
     (Inr (SuccessBody ''/m/Movie.en.srt'' ''en'' ''opensubtitles'' False, 200),
      \<lparr>files = [''/m/Movie.en.srt''],
       trace = [GetMediaInfo ''42'', Search ''opensubtitles'' ''en'',
                Download ''opensubtitles'' ''a'' ''/m/Movie.en.srt'',
                Verify ''/m/Movie.en.srt'' ''en'',
                RefreshMetadata ''42'', SetSession ''42'' ''eng'', Sleep 3,
                SetSession ''42'' ''eng'', Sleep 6, SetSession ''42'' ''eng'',
                SetDefault ''42'' ''eng'']\<rparr>)"
proof -
  have h1: "''media.play'' \<in> set PROCESSABLE_EVENTS" by (simp add: PROCESSABLE_EVENTS_def)
  have h2: "''42'' \<noteq> []" by simp
  have h3: "media_info_out env_play =
              Inr (Some \<lparr>rating_key = ''42'', title = ''Movie'',
                         file_path = Some ''/m/Movie.mkv''\<rparr>)"
    by (simp add: env_play_def)
  have h4: "file_path \<lparr>rating_key = ''42'', title = ''Movie'',
                       file_path = Some ''/m/Movie.mkv''\<rparr> = Some ''/m/Movie.mkv''"
    by simp
  have h5: "''/m/Movie.mkv'' \<noteq> []" by simp
  have h7: "success (Downloaded ''/m/Movie.en.srt'' ''en'' ''eng'' ''opensubtitles'' False)"
    by simp
  have h8: "subtitles_auto_select st_base" by (simp add: st_base_def)
  have h9: "refresh_out env_play = Inr True" by (simp add: env_play_def env_base_def)
  have h10: "\<forall>k<3. set_session_out env_play
               (count_ev is_SetSession
                  \<lparr>files = [''/m/Movie.en.srt''],
                   trace = [GetMediaInfo ''42'', Search ''opensubtitles'' ''en'',
                            Download ''opensubtitles'' ''a'' ''/m/Movie.en.srt'',
                            Verify ''/m/Movie.en.srt'' ''en'']\<rparr> + k) \<noteq> Inr True"
    by (simp add: env_play_def env_base_def)
  have h11: "set_default_out env_play = Inr False" by (simp add: env_play_def env_base_def)
  show ?thesis
    using session_fallback_default_once[OF h1 h2 h3 h4 h5 download_subtitles_play h7 h8 h9
        h10 h11]
    by simp
qed

section \<open>Upgrading to a popular subtitle\<close>

text \<open>
  C2, evaluated. \<^verbatim>\<open>/m/Movie.en.ass\<close> exists, the provider finds two candidates for
  \<open>en\<close>, none a perfect match, of popularity 20 and 150; the upgrade to a popular subtitle
  is enabled with threshold 100. The acquisition downloads the candidate of popularity 150
  to \<^verbatim>\<open>/m/Movie.en.srt\<close> and reports success, but with \<open>upgraded\<close> false, and the old
  file is still there: no \<^verbatim>\<open>os.remove\<close> was attempted.
\<close>

theorem popular_upgrade_not_reported:
  "find_existing (files w_existing) ''/m'' ''Movie'' ''en'' SUBTITLE_EXTENSIONS =
     Some ''/m/Movie.en.ass'' \<and>
   subtitles_upgrade_on_popular st_popular \<and>
   subtitles_popular_download_threshold st_popular = 100 \<and>
   download_subtitles env_popular st_popular [os_provider] ''/m/Movie.mkv'' w_existing =
     (Downloaded ''/m/Movie.en.srt'' ''en'' ''eng'' ''opensubtitles'' False,
      \<lparr>files = [''/m/Movie.en.srt'', ''/m/Movie.en.ass''],
       trace = [Search ''opensubtitles'' ''en'',
                Download ''opensubtitles'' ''a'' ''/m/Movie.en.srt'',
                Verify ''/m/Movie.en.srt'' ''en'']\<rparr>)"
proof -
  let ?ws = "\<lparr>files = [''/m/Movie.en.ass''], trace = [Search ''opensubtitles'' ''en'']\<rparr>"
  let ?wd = "\<lparr>files = [''/m/Movie.en.srt'', ''/m/Movie.en.ass''],
              trace = [Search ''opensubtitles'' ''en'',
                       Download ''opensubtitles'' ''a'' ''/m/Movie.en.srt'',
                       Verify ''/m/Movie.en.srt'' ''en'']\<rparr>"
  have fe: "find_existing (files w_existing) ''/m'' ''Movie'' ''en'' SUBTITLE_EXTENSIONS =
            Some ''/m/Movie.en.ass''"
    by (simp add: SUBTITLE_EXTENSIONS_def path_join_def w_existing_def Let_def)
  have st: "languages_list st_popular = [''en'', ''nl'']"
    "subtitles_use_release_matching st_popular"
    "subtitles_upgrade_on_perfect_match st_popular"
    "subtitles_upgrade_on_popular st_popular"
    "subtitles_popular_download_threshold st_popular = 100"
    by (simp_all add: st_popular_def st_base_def)
  have dav: "download_and_verify env_popular os_provider (cand ''a'' False 150)
               ''/m/Movie.en.srt'' None ''en'' ?ws = (Inr True, ?wd)"
    by (simp add: download_and_verify_ok env_popular_def env_base_def count_ev_def
        os_provider_name cand_fields)
  have dwr: "download_with_retry env_popular os_provider (cand ''a'' False 150)
               ''/m/Movie.en.srt'' None ''en'' (Some ''/m/Movie.en.ass'') ?ws =
             (Downloaded ''/m/Movie.en.srt'' ''en'' ''eng'' ''opensubtitles'' False, ?wd)"
    by (simp add: download_with_retry_def dav truthy_str_def os_provider_name cand_fields)
       (simp add: env_popular_def env_base_def)
  have sa: "search_all env_popular [os_provider] ''en'' (Some []) [] w_existing =
            ([(os_provider, cand ''b'' False 20, None),
              (os_provider, cand ''a'' False 150, None)], ?ws)"
    by (simp add: provider_search_def emit_def w_existing_def count_ev_def os_provider_name
        env_popular_def env_base_def)
  have rk: "rank [(os_provider, cand ''b'' False 20, None :: string option),
                  (os_provider, cand ''a'' False 150, None)] =
            [(os_provider, cand ''a'' False 150, None),
             (os_provider, cand ''b'' False 20, None)]"
    by (simp add: rank_def rank_key_def cand_fields less_eq_prod_def)
  have dl: "download_loop env_popular st_popular ''/m'' ''Movie'' ''en''
              (Some ''/m/Movie.en.ass'') (cand ''a'' False 150)
              [(os_provider, cand ''a'' False 150, None),
               (os_provider, cand ''b'' False 20, None)] ?ws =
            (Downloaded ''/m/Movie.en.srt'' ''en'' ''eng'' ''opensubtitles'' False, ?wd)"
    by (simp add: truthy_str_def path_join_def dwr cand_fields st)
  have td: "try_download env_popular st_popular [os_provider] ''/m'' ''Movie'' ''en''
              (Some []) (Some ''/m/Movie.en.ass'') w_existing =
            (Downloaded ''/m/Movie.en.srt'' ''en'' ''eng'' ''opensubtitles'' False, ?wd)"
    by (simp add: try_download_def sa rk Let_def truthy_str_def dl cand_fields st
        del: search_all.simps download_loop.simps)
  have ex: "get_existing_subtitles st_popular w_existing ''/m'' ''Movie'' =
            [''en'' \<mapsto> ''/m/Movie.en.ass'']"
    by (simp add: get_existing_subtitles_def SUBTITLE_EXTENSIONS_def st path_join_def
        w_existing_def Let_def)
  have ri: "extract_release_info (py_upper env_popular) (guessit env_popular) ''Movie'' = []"
    by (simp add: extract_release_info_def env_popular_def env_base_def)
  have pd: "path_dirname env_popular ''/m/Movie.mkv'' = ''/m''"
    "path_stem env_popular ''/m/Movie.mkv'' = ''Movie''"
    by (simp_all add: env_popular_def env_base_def)
  have ds: "download_subtitles env_popular st_popular [os_provider] ''/m/Movie.mkv''
              w_existing =
            (Downloaded ''/m/Movie.en.srt'' ''en'' ''eng'' ''opensubtitles'' False, ?wd)"
    by (simp add: download_subtitles_def Let_def pd st ex ri should_skip_first_language_def
        should_skip_language_check_def td)
  from fe st(4,5) ds show ?thesis by simp
qed

section \<open>The perfect-match flag of the search results\<close>

lemma build_results_flag:
  "\<forall>r\<in>set acc. \<not> is_perfect_match r \<and> score r = 0 \<Longrightarrow>
   \<forall>r\<in>set (build_results str_lower self_name lang allowed subs acc).
      \<not> is_perfect_match r \<and> score r = 0"
proof (induction subs arbitrary: acc)
  case Nil
  then show ?case by simp
next
  case (Cons sub subs)
  let ?new = "(SubtitleResult_default (file_id (hd (a_files sub))) lang (a_release sub)
                 (file_name (hd (a_files sub))))
               \<lparr>download_params := Some (file_id (hd (a_files sub))),
                provider := self_name,
                download_count := a_download_count sub\<rparr>"
  have "\<not> is_perfect_match ?new \<and> score ?new = 0"
    by (simp add: SubtitleResult_default_def)
  with Cons.prems
  have new: "\<forall>r\<in>set (acc @ [?new]). \<not> is_perfect_match r \<and> score r = 0"
    by simp
  show ?case
    using Cons.IH[OF Cons.prems] Cons.IH[OF new] by (simp add: Let_def)
qed

lemma opensubtitles_search_flag:
  assumes "opensubtitles_search str_lower self allowed auth api tok lang release_groups =
           Inr (results, t)"
  shows "\<forall>r\<in>set results. \<not> is_perfect_match r \<and> score r = 0"
proof -
  have "results = [] \<or>
        (\<exists>subs. results = build_results str_lower (name self) lang (allowed lang) subs [])"
    using assms
    by (auto simp add: opensubtitles_search_def split: if_splits option.splits sum.splits)
  then show ?thesis
  proof
    assume "results = []"
    then show ?thesis by simp
  next
    assume "\<exists>subs. results = build_results str_lower (name self) lang (allowed lang) subs []"
    then obtain subs
      where r: "results = build_results str_lower (name self) lang (allowed lang) subs []"
      by blast
    show ?thesis unfolding r by (rule build_results_flag) simp
  qed
qed

lemma opensubtitles_search_ignores_release_groups:
  "opensubtitles_search str_lower self allowed auth api tok lang release_groups =
   opensubtitles_search str_lower self allowed auth api tok lang release_groups'"
  by (simp add: opensubtitles_search_def)

text \<open>
  C1, evaluated. The fingerprint is \<open>NTB, 1080P\<close>; the API answers with one English entry
  whose release label and file name contain both tokens. The search returns its candidate
  with the perfect-match flag false and the score \<open>0\<close>, while \<^verbatim>\<open>calculate_match_score\<close>
  on the same label, file name and fingerprint gives the score \<open>1\<close> and a perfect match.
  The search does not read its argument \<^verbatim>\<open>release_groups\<close>, and no result of it has the
  flag set (the two lemmas above).
\<close>

theorem search_leaves_flag_unset:
  "opensubtitles_search ascii_lower os_provider allowed_languages None (Inr api_answer)
       (Some ''token'') ''en'' (Some [''NTB'', ''1080P'']) =
     Inr ([\<lparr>sub_id = ''7'', language = ''en'', release = ''Movie.2020.1080p.WEB-NTB'',
            filename = ''Movie.2020.1080p.WEB-NTB.srt'', download_url = None,
            download_params = Some ''7'', is_perfect_match = False,
            provider = ''opensubtitles'', score = 0, download_count = 10\<rparr>],
          Some ''token'') \<and>
   calculate_match_score ascii_upper ''Movie.2020.1080p.WEB-NTB''
       ''Movie.2020.1080p.WEB-NTB.srt'' [''NTB'', ''1080P''] = (1, True)"
proof -
  have a: "opensubtitles_search ascii_lower os_provider allowed_languages None
       (Inr api_answer) (Some ''token'') ''en'' (Some [''NTB'', ''1080P'']) =
     Inr ([\<lparr>sub_id = ''7'', language = ''en'', release = ''Movie.2020.1080p.WEB-NTB'',
            filename = ''Movie.2020.1080p.WEB-NTB.srt'', download_url = None,
            download_params = Some ''7'', is_perfect_match = False,
            provider = ''opensubtitles'', score = 0, download_count = 10\<rparr>],
          Some ''token'')"
    by (simp add: opensubtitles_search_def os_provider_def api_answer_def
        allowed_languages_def ascii_lower_def is_ascii_upper_def Let_def
        SubtitleResult_default_def)
  have u: "ascii_upper ''Movie.2020.1080p.WEB-NTB Movie.2020.1080p.WEB-NTB.srt''
           = ''MOVIE.2020.1080P.WEB-NTB MOVIE.2020.1080P.WEB-NTB.SRT''"
    by (simp add: ascii_upper_def is_ascii_lower_def)
  have t: "ascii_upper ''NTB'' = ''NTB''" "ascii_upper ''1080P'' = ''1080P''"
    by (simp_all add: ascii_upper_def is_ascii_lower_def)
  have b: "calculate_match_score ascii_upper ''Movie.2020.1080p.WEB-NTB''
       ''Movie.2020.1080p.WEB-NTB.srt'' [''NTB'', ''1080P''] = (1, True)"
    by (simp add: calculate_match_score_def Let_def u t sublist_Cons_right)
  from a b show ?thesis by simp
qed

end
